theory Spec2Isabelle
  imports Main
begin

section \<open>The Discord notifier of easeprobe (notify/discord/discord.go)\<close>

text \<open>
  A shallow embedding of \<^verbatim>\<open>notify/discord/discord.go\<close>. The structs of the file are
  records, its methods are functions that keep their Go names, and the two effects of
  the package (a call of the logger, a call of the HTTP client) are the events of a
  trace that each effectful function returns. What the file takes from elsewhere comes
  in two records of functions: \<open>probe_pkg\<close> for the helpers of package \<open>probe\<close>, and
  \<open>world\<close> for the network and for the library routines that are not modelled.
\<close>

subsection \<open>Values of package probe\<close>

text \<open>
  Modelled from the spec: the declaration of \<open>probe.Status\<close> is not in this file. The
  spec gives the enumeration as Up, Down, Unknown; the file itself names only
  \<open>probe.StatusUp\<close>.
\<close>

datatype Status = StatusUp | StatusDown | StatusUnknown

text \<open>
  Modelled from the spec: \<open>probe.Makerdown\<close> is the one constant of \<open>probe.Format\<close> that
  the file names (the markup flavour of the status-distribution text).
\<close>

datatype Format = Makerdown

text \<open>\<open>time.Duration\<close> is an \<open>int64\<close> count of nanoseconds.\<close>

type_synonym Duration = int

text \<open>
  A \<open>time.Time\<close>: the instant as seconds and nanoseconds since the Unix epoch, and the
  offset (seconds east of UTC) of the location it is shown in.
\<close>

record Time =
  unixSec :: int
  nsec :: int
  offset :: int

text \<open>
  Modelled from the spec: the fields of \<open>probe.Stat\<close> and \<open>probe.Result\<close> that the file
  reads (the declarations are in package \<open>probe\<close>).
\<close>

record Stat =
  UpTime :: Duration
  DownTime :: Duration
  Total :: int

record Result =
  Name :: string
  Endpoint :: string
  StartTime :: Time
  RoundTripTime :: Duration
  Status :: Status
  Message :: string
  TimeFormat :: string
  Stat :: Stat

text \<open>
  Modelled from the spec: a \<open>probe.Prober\<close> is a handle with a \<open>Result()\<close> accessor that
  returns a probe result. A handle whose accessor returns a nil pointer is outside the model.
\<close>

record Prober =
  Result :: Result

text \<open>
  The functions of package \<open>probe\<close> that the file calls; their bodies are not in this
  file, so every definition below takes them as the parameter \<open>P\<close>. \<open>result.SLA()\<close> is
  a \<open>float64\<close> that the file only prints under the verb \<open>%.2f\<close>: \<open>SLA_2f\<close> is that text.
\<close>

record probe_pkg =
  Title :: "Result \<Rightarrow> string"
  Emoji :: "Status \<Rightarrow> string"
  Status_String :: "Status \<Rightarrow> string"
  SLA_2f :: "Result \<Rightarrow> string"
  StatStatusText :: "Stat \<Rightarrow> Format \<Rightarrow> string"

subsection \<open>The structs of the file\<close>

record Thumbnail =
  URL :: string

record Fields =
  Name :: string
  Value :: string
  Inline :: bool

record Footer =
  Text :: string
  IconURL :: string

record Author =
  Name :: string
  URL :: string
  IconURL :: string

record Embed =
  Author :: Author
  Title :: string
  URL :: string
  Color :: int
  Description :: string
  Timestamp :: string
  Thumbnail :: Thumbnail
  Fields :: "Fields list"
  Footer :: Footer

record Discord =
  Username :: string
  AvatarURL :: string
  Content :: string
  Embeds :: "Embed list"

record NotifyConfig =
  WebhookURL :: string
  Dry :: bool

subsection \<open>Errors, JSON values, HTTP messages and the world\<close>

text \<open>A Go \<open>error\<close> value, known by the text its \<open>Error()\<close> method returns.\<close>

datatype error = GoError string

fun Error :: "error \<Rightarrow> string" where
  "Error (GoError msg) = msg"

datatype json =
  JString string
  | JNumber int
  | JBool bool
  | JArray "json list"
  | JObject "(string \<times> json) list"

record Request =
  Method :: string
  ReqURL :: string
  Header :: "(string \<times> string) list"
  Body :: string
  Close :: bool

record Client =
  Timeout :: Duration

record Response =
  StatusCode :: int
  RespBody :: string

text \<open>
  What the file reaches through libraries and cannot be read off its text:
  \<^item> \<open>json_encode\<close>: the text that \<open>encoding/json\<close> writes for a JSON value (string
    escaping included);
  \<^item> \<open>url_Parse\<close>: the error, if any, with which \<open>http.NewRequest\<close> rejects a URL;
  \<^item> \<open>client_Do\<close>: one round trip of \<open>http.Client.Do\<close>: a transport error, or the
    response with the body as \<open>buf.ReadFrom\<close> reads it;
  \<^item> \<open>Time_Format\<close>: \<open>Time.Format\<close> for a layout chosen by the caller.
\<close>

record world =
  json_encode :: "json \<Rightarrow> string"
  url_Parse :: "string \<Rightarrow> error option"
  client_Do :: "Client \<Rightarrow> Request \<Rightarrow> error + Response"
  Time_Format :: "Time \<Rightarrow> string \<Rightarrow> string"

datatype Level = InfoLevel | ErrorLevel

datatype event = Log Level string | HTTPDo Client Request

subsection \<open>Decimal digits\<close>

definition digit_char :: "nat \<Rightarrow> char" where
  "digit_char n = ''0123456789'' ! n"

text \<open>
  The decimal digits of a number, most significant first, as the loops of \<open>fmtInt\<close>
  (package \<open>time\<close>) and of \<open>strconv\<close> produce them: one digit for 0.
\<close>

fun digits :: "nat \<Rightarrow> string" where
  "digits n = (if n < 10 then [digit_char n] else digits (n div 10) @ [digit_char (n mod 10)])"

declare digits.simps [simp del]

text \<open>The verb \<open>%d\<close> on a Go integer.\<close>

definition Itoa :: "int \<Rightarrow> string" where
  "Itoa x = (if x < 0 then CHR ''-'' # digits (nat (- x)) else digits (nat x))"

subsection \<open>time.Duration: Round and String\<close>

definition Nanosecond :: Duration where "Nanosecond = 1"
definition Microsecond :: Duration where "Microsecond = 1000 * Nanosecond"
definition Millisecond :: Duration where "Millisecond = 1000 * Microsecond"
definition Second :: Duration where "Second = 1000 * Millisecond"

definition minDuration :: Duration where "minDuration = - (2 ^ 63)"
definition maxDuration :: Duration where "maxDuration = 2 ^ 63 - 1"

text \<open>The value an \<open>int64\<close> holds after an operation whose exact result is \<open>x\<close>.\<close>

definition int64 :: "int \<Rightarrow> int" where
  "int64 x = (x + 2 ^ 63) mod 2 ^ 64 - 2 ^ 63"

text \<open>Go's \<open>%\<close> truncates towards zero: the remainder has the sign of the dividend.\<close>

definition go_rem :: "int \<Rightarrow> int \<Rightarrow> int" where
  "go_rem a b = sgn a * (\<bar>a\<bar> mod \<bar>b\<bar>)"

text \<open>\<open>lessThanHalf(x, y)\<close> is \<open>uint64(x) + uint64(x) < uint64(y)\<close>.\<close>

definition lessThanHalf :: "Duration \<Rightarrow> Duration \<Rightarrow> bool" where
  "lessThanHalf x y = ((x mod 2 ^ 64 + x mod 2 ^ 64) mod 2 ^ 64 < y mod 2 ^ 64)"

text \<open>
  \<open>Duration.Round\<close> of the Go library: the nearest multiple of \<open>m\<close>, halfway values
  away from zero; the largest or smallest \<open>Duration\<close> when that multiple does not fit.
  \<^verbatim>\<open>
  if m <= 0 { return d }
  r := d % m
  if d < 0 {
      r = -r
      if lessThanHalf(r, m) { return d + r }
      if d1 := d - m + r; d1 < d { return d1 }
      return minDuration
  }
  if lessThanHalf(r, m) { return d - r }
  if d1 := d + m - r; d1 > d { return d1 }
  return maxDuration
  \<close>
\<close>

definition Round :: "Duration \<Rightarrow> Duration \<Rightarrow> Duration" where
  "Round d m =
    (if m \<le> 0 then d
     else let r = go_rem d m in
       if d < 0 then
         (let r = int64 (- r) in
          if lessThanHalf r m then int64 (d + r)
          else let d1 = int64 (d - m + r) in
            if d1 < d then d1 else minDuration)
       else if lessThanHalf r m then int64 (d - r)
       else let d1 = int64 (d + m - r) in
         if d1 > d then d1 else maxDuration)"

text \<open>
  \<open>fmtFrac(buf, v, prec)\<close> writes the fraction of \<open>v / 10^prec\<close> in front of what the
  buffer holds, without trailing zeros, and returns the buffer and \<open>v / 10^prec\<close>. The
  buffer is filled from its end, so the model keeps the text written so far.
\<close>

fun fmtFrac_loop :: "nat \<Rightarrow> string \<Rightarrow> nat \<Rightarrow> bool \<Rightarrow> string \<times> nat \<times> bool" where
  "fmtFrac_loop 0 buf v print = (buf, v, print)"
| "fmtFrac_loop (Suc i) buf v print =
    (let digit = v mod 10;
         print = (print \<or> digit \<noteq> 0);
         buf = (if print then digit_char digit # buf else buf)
     in fmtFrac_loop i buf (v div 10) print)"

definition fmtFrac :: "string \<Rightarrow> nat \<Rightarrow> nat \<Rightarrow> string \<times> nat" where
  "fmtFrac buf v prec =
    (case fmtFrac_loop prec buf v False of
       (buf, v, print) \<Rightarrow> (if print then CHR ''.'' # buf else buf, v))"

text \<open>\<open>fmtInt(buf, v)\<close> writes \<open>v\<close> in decimal in front of what the buffer holds.\<close>

function fmtInt_loop :: "string \<Rightarrow> nat \<Rightarrow> string" where
  "fmtInt_loop buf v = (if v > 0 then fmtInt_loop (digit_char (v mod 10) # buf) (v div 10) else buf)"
  by pat_completeness auto
termination
  by (relation "measure (\<lambda>(buf, v). v)") auto

declare fmtInt_loop.simps [simp del]

definition fmtInt :: "string \<Rightarrow> nat \<Rightarrow> string" where
  "fmtInt buf v = (if v = 0 then CHR ''0'' # buf else fmtInt_loop buf v)"

text \<open>The two bytes of the micro sign (U+00B5) in UTF-8.\<close>

definition micro_sign :: string where
  "micro_sign = [CHR 0xC2, CHR 0xB5]"

text \<open>
  \<open>Duration.String\<close> of the Go library (\<open>Duration.format\<close>): below one second the unit
  is ns, us (with the micro sign) or ms; from one second on the form is \<open>1h2m3.5s\<close>.
  \<open>u\<close> is \<open>uint64(d)\<close>, negated when \<open>d\<close> is negative.
\<close>

definition Duration_String :: "Duration \<Rightarrow> string" where
  "Duration_String d =
    (let u = nat \<bar>d\<bar>; neg = (d < 0) in
     if u < nat Second then
       (if u = 0 then ''0s''
        else
          let (prec, buf) =
                (if u < nat Microsecond then (0, ''ns'')
                 else if u < nat Millisecond then (3, micro_sign @ ''s'')
                 else (6, ''ms''));
              (buf, u) = fmtFrac buf u prec;
              buf = fmtInt buf u
          in if neg then CHR ''-'' # buf else buf)
     else
       (let (buf, u) = fmtFrac ''s'' u 9;
            buf = fmtInt buf (u mod 60);
            u = u div 60;
            buf = (if u > 0 then
                     (let buf = fmtInt (CHR ''m'' # buf) (u mod 60);
                          u = u div 60
                      in if u > 0 then fmtInt (CHR ''h'' # buf) u else buf)
                   else buf)
        in if neg then CHR ''-'' # buf else buf))"

subsection \<open>time.Time: UTC and the layout RFC3339\<close>

text \<open>\<open>Time.UTC\<close> keeps the instant and sets the location to UTC.\<close>

definition UTC :: "Time \<Rightarrow> Time" where
  "UTC t = t\<lparr>offset := 0\<rparr>"

text \<open>Go's \<open>/\<close> on integers truncates towards zero.\<close>

definition go_div :: "int \<Rightarrow> int \<Rightarrow> int" where
  "go_div a b = sgn a * sgn b * (\<bar>a\<bar> div \<bar>b\<bar>)"

definition isLeap :: "int \<Rightarrow> bool" where
  "isLeap year = (year mod 4 = 0 \<and> (year mod 100 \<noteq> 0 \<or> year mod 400 = 0))"

text \<open>
  The year and the day within the year (from 0) of a day counted from 1 January of
  year 1, in the proleptic Gregorian calendar, by the cycles of 400, 100, 4 and 1
  years as \<open>absDate\<close> of package \<open>time\<close> cuts them off.
\<close>

definition absDate :: "int \<Rightarrow> int \<times> int" where
  "absDate days =
    (let n400 = days div 146097;
         d = days - 146097 * n400;
         n = d div 36524;
         n100 = n - n div 4;
         d = d - 36524 * n100;
         n4 = d div 1461;
         d = d - 1461 * n4;
         n = d div 365;
         n1 = n - n div 4;
         d = d - 365 * n1
     in (400 * n400 + 100 * n100 + 4 * n4 + n1 + 1, d))"

definition daysBefore :: "int list" where
  "daysBefore = [0, 31, 59, 90, 120, 151, 181, 212, 243, 273, 304, 334, 365]"

text \<open>
  Month (from 1) and day of the month (from 1) of the day \<open>yday\<close> of \<open>year\<close>: the
  month is estimated as \<open>day / 31\<close> and corrected by the table, the leap day apart.
\<close>

definition monthDay :: "int \<Rightarrow> int \<Rightarrow> int \<times> int" where
  "monthDay year yday =
    (if isLeap year \<and> yday = 31 + 29 - 1 then (2, 29)
     else
       let day = (if isLeap year \<and> yday > 31 + 29 - 1 then yday - 1 else yday);
           month = day div 31;
           end = daysBefore ! nat (month + 1);
           (month, begin) =
             (if day \<ge> end then (month + 1, end) else (month, daysBefore ! nat month))
       in (month + 1, day - begin + 1))"

text \<open>Days from 1 January of year 1 to 1 January 1970.\<close>

definition unixEpochDay :: int where
  "unixEpochDay = 719162"

text \<open>
  \<open>appendInt(b, x, width)\<close> of package \<open>time\<close>: the decimal digits of \<open>x\<close>, padded with
  zeros to \<open>width\<close>, after a minus sign when \<open>x\<close> is negative.
\<close>

definition appendInt :: "int \<Rightarrow> nat \<Rightarrow> string" where
  "appendInt x width =
    (let ds = digits (nat \<bar>x\<bar>)
     in (if x < 0 then ''-'' else []) @ replicate (width - length ds) (CHR ''0'') @ ds)"

text \<open>
  \<open>t.Format(time.RFC3339)\<close>, the layout \<^verbatim>\<open>2006-01-02T15:04:05Z07:00\<close>: date and time of
  day in the location of \<open>t\<close>, then \<open>Z\<close> for the offset 0 and \<open>+hh:mm\<close> or \<open>-hh:mm\<close>
  otherwise. The layout has no fraction of a second.
\<close>

definition Format_RFC3339 :: "Time \<Rightarrow> string" where
  "Format_RFC3339 t =
    (let abs = unixSec t + offset t;
         (year, yday) = absDate (abs div 86400 + unixEpochDay);
         (month, day) = monthDay year yday;
         secs = abs mod 86400;
         zone = go_div (offset t) 60
     in appendInt year 4 @ ''-'' @ appendInt month 2 @ ''-'' @ appendInt day 2 @ ''T''
        @ appendInt (secs div 3600) 2 @ '':'' @ appendInt (secs mod 3600 div 60) 2 @ '':''
        @ appendInt (secs mod 60) 2
        @ (if offset t = 0 then ''Z''
           else (if zone < 0 then ''-'' else ''+'')
                @ appendInt (\<bar>zone\<bar> div 60) 2 @ '':'' @ appendInt (\<bar>zone\<bar> mod 60) 2))"

subsection \<open>Struct tags and the JSON value of a payload\<close>

text \<open>
  \<open>encoding/json\<close> names the member of a struct field after its tag, which it reads with
  \<open>reflect.StructTag.Lookup\<close>. A tag is a sequence of \<^verbatim>\<open>key:"value"\<close> pairs; \<open>Lookup\<close>
  stops, without a value, at the first pair that is not of that form.

  \<open>scanQuoted\<close> is the scan for the closing quote, on the text after the opening one:
  the number of characters in front of the closing quote, a backslash skipping the
  character after it.
\<close>

fun scanQuoted :: "string \<Rightarrow> nat option" where
  "scanQuoted [] = None"
| "scanQuoted (c # cs) =
    (if c = CHR 0x22 then Some 0
     else if c = CHR 0x5C then
       (case cs of [] \<Rightarrow> None | _ # cs' \<Rightarrow> map_option (\<lambda>n. n + 2) (scanQuoted cs'))
     else map_option Suc (scanQuoted cs))"

text \<open>
  \<open>strconv.Unquote\<close> on the text between the quotes. Escape sequences are not
  interpreted here: no tag of the file has one, and a value with a backslash or a
  newline is rejected.
\<close>

definition Unquote :: "string \<Rightarrow> string option" where
  "Unquote q = (if CHR 0x5C \<in> set q \<or> CHR 0x0A \<in> set q then None else Some q)"

function Lookup :: "string \<Rightarrow> string \<Rightarrow> string option" where
  "Lookup tag key =
    (let tag = dropWhile (\<lambda>c. c = CHR '' '') tag;
         name = takeWhile (\<lambda>c. (32::nat) < of_char c \<and> c \<noteq> CHR '':'' \<and> c \<noteq> CHR 0x22
                                \<and> c \<noteq> CHR 0x7F) tag;
         rest = drop (length name) tag
     in if name \<noteq> [] \<and> 1 < length rest \<and> rest ! 0 = CHR '':'' \<and> rest ! 1 = CHR 0x22 then
          (case scanQuoted (drop 2 rest) of
             None \<Rightarrow> None
           | Some n \<Rightarrow>
               if key = name then Unquote (take n (drop 2 rest))
               else Lookup (drop (n + 3) rest) key)
        else None)"
  by pat_completeness auto
termination
proof (relation "measure (\<lambda>(tag, key). length tag)", goal_cases)
  case 1
  show ?case by simp
next
  case (2 tag key x xa xb x2)
  have "length (dropWhile (\<lambda>c. c = CHR '' '') tag) \<le> length tag"
    by (rule length_dropWhile_le)
  with 2 show ?case by auto
qed

declare Lookup.simps [simp del]

text \<open>
  \<open>isValidTag\<close> of \<open>encoding/json\<close>, on ASCII: a name is made of letters, digits and
  the punctuation listed.
\<close>

definition isValidTag :: "string \<Rightarrow> bool" where
  "isValidTag s =
    (s \<noteq> [] \<and>
     list_all (\<lambda>c. c \<in> set ''!#$%&()*+-./:;<=>?@[]^_{|}~ ''
                   \<or> c \<in> set ''abcdefghijklmnopqrstuvwxyzABCDEFGHIJKLMNOPQRSTUVWXYZ''
                   \<or> c \<in> set ''0123456789'') s)"

text \<open>
  The JSON member name of a struct field (\<open>typeFields\<close> of \<open>encoding/json\<close>): the name
  in the \<open>json\<close> tag when there is a valid one, the Go name of the field otherwise; no
  member for the tag \<open>-\<close>. \<open>Tag.Get\<close> is the empty string when \<open>Lookup\<close> finds nothing.
\<close>

definition json_key :: "string \<Rightarrow> string \<Rightarrow> string option" where
  "json_key field tag =
    (let tag = (case Lookup tag ''json'' of None \<Rightarrow> [] | Some v \<Rightarrow> v) in
     if tag = ''-'' then None
     else
       let name = takeWhile (\<lambda>c. c \<noteq> CHR '','') tag;
           name = (if isValidTag name then name else [])
       in Some (if name \<noteq> [] then name else field))"

text \<open>
  The JSON object of a struct, from its fields in order: Go name, tag, value. No tag
  of the file has an option such as \<open>omitempty\<close>, and no two fields share a name.
\<close>

definition json_struct :: "(string \<times> string \<times> json) list \<Rightarrow> json" where
  "json_struct fs =
    JObject (List.map_filter (\<lambda>(field, tag, v). map_option (\<lambda>k. (k, v)) (json_key field tag)) fs)"

text \<open>
  The structs of the file with the tags as their declarations spell them. Every slice
  the file builds is non-nil, so a slice is a JSON array.
\<close>

definition Thumbnail_json :: "Thumbnail \<Rightarrow> json" where
  \<open>Thumbnail_json t = json_struct [(''URL'', ''json:"url"'', JString (Thumbnail.URL t))]\<close>

definition Fields_json :: "Fields \<Rightarrow> json" where
  \<open>Fields_json f = json_struct
    [(''Name'', ''json:"name"'', JString (Fields.Name f)),
     (''Value'', ''json:"value"'', JString (Value f)),
     (''Inline'', ''json:"inline"'', JBool (Inline f))]\<close>

definition Footer_json :: "Footer \<Rightarrow> json" where
  \<open>Footer_json f = json_struct
    [(''Text'', ''json:"text"'', JString (Text f)),
     (''IconURL'', ''json:"icon_url"'', JString (Footer.IconURL f))]\<close>

definition Author_json :: "Author \<Rightarrow> json" where
  \<open>Author_json a = json_struct
    [(''Name'', ''json:"name"'', JString (Author.Name a)),
     (''URL'', ''json:"url'', JString (Author.URL a)),
     (''IconURL'', ''json:icon_url'', JString (Author.IconURL a))]\<close>

definition Embed_json :: "Embed \<Rightarrow> json" where
  \<open>Embed_json e = json_struct
    [(''Author'', ''json:"author"'', Author_json (Author e)),
     (''Title'', ''json:"title"'', JString (Title e)),
     (''URL'', ''json:"url"'', JString (Embed.URL e)),
     (''Color'', ''json:"color"'', JNumber (Color e)),
     (''Description'', ''json:"description"'', JString (Description e)),
     (''Timestamp'', ''json:"timestamp"'', JString (Timestamp e)),
     (''Thumbnail'', ''json:"thumbnail"'', Thumbnail_json (Thumbnail e)),
     (''Fields'', ''json:"fields"'', JArray (map Fields_json (Fields e))),
     (''Footer'', ''json:"footer"'', Footer_json (Footer e))]\<close>

definition Discord_json :: "Discord \<Rightarrow> json" where
  \<open>Discord_json d = json_struct
    [(''Username'', ''json:"username"'', JString (Username d)),
     (''AvatarURL'', ''json:"avatar_url"'', JString (AvatarURL d)),
     (''Content'', ''json:"content"'', JString (Content d)),
     (''Embeds'', ''json:"embeds"'', JArray (map Embed_json (Embeds d)))]\<close>

text \<open>
  \<open>json.Marshal(discord)\<close>: the JSON value of the payload, written out by the library.
  \<open>Marshal\<close> returns an error for a value that has no JSON form (a channel, a function,
  a cycle, a NaN, a \<open>Marshaler\<close> that fails). A \<open>Discord\<close> is made of strings, integers,
  booleans, structs and slices, with no method of its own for JSON, so the call
  returns the text; the callers test the error all the same, and so do their models.
\<close>

definition json_Marshal :: "world \<Rightarrow> Discord \<Rightarrow> error + string" where
  "json_Marshal W discord = Inr (json_encode W (Discord_json discord))"

subsection \<open>What fmt prints for the values the file passes to it\<close>

definition fmt_bool :: "bool \<Rightarrow> string" where
  "fmt_bool b = (if b then ''true'' else ''false'')"

fun join_space :: "string list \<Rightarrow> string" where
  "join_space [] = []"
| "join_space [x] = x"
| "join_space (x # y # ys) = x @ '' '' @ join_space (y # ys)"

text \<open>
  The verb \<open>%v\<close> on a struct prints its fields between braces, and on a slice its
  elements between brackets, separated by spaces.
\<close>

definition fmt_v_Author :: "Author \<Rightarrow> string" where
  "fmt_v_Author a = ''{'' @ join_space [Author.Name a, Author.URL a, Author.IconURL a] @ ''}''"

definition fmt_v_Thumbnail :: "Thumbnail \<Rightarrow> string" where
  "fmt_v_Thumbnail t = ''{'' @ Thumbnail.URL t @ ''}''"

definition fmt_v_Fields :: "Fields \<Rightarrow> string" where
  "fmt_v_Fields f = ''{'' @ join_space [Fields.Name f, Value f, fmt_bool (Inline f)] @ ''}''"

definition fmt_v_Footer :: "Footer \<Rightarrow> string" where
  "fmt_v_Footer f = ''{'' @ join_space [Text f, Footer.IconURL f] @ ''}''"

definition fmt_v_Embed :: "Embed \<Rightarrow> string" where
  "fmt_v_Embed e =
    ''{'' @ join_space
      [fmt_v_Author (Author e), Title e, Embed.URL e, Itoa (Color e), Description e,
       Timestamp e, fmt_v_Thumbnail (Thumbnail e),
       ''['' @ join_space (map fmt_v_Fields (Fields e)) @ '']'',
       fmt_v_Footer (Footer e)] @ ''}''"

definition fmt_v_Discord :: "Discord \<Rightarrow> string" where
  "fmt_v_Discord d =
    ''{'' @ join_space
      [Username d, AvatarURL d, Content d,
       ''['' @ join_space (map fmt_v_Embed (Embeds d)) @ '']''] @ ''}''"

text \<open>
  The verb \<open>%s\<close> on a \<open>NotifyConfig\<close>, which has no \<open>String\<close> method: the fields under
  \<open>%s\<close>, where a \<open>bool\<close> is a bad operand.
\<close>

definition fmt_s_NotifyConfig :: "NotifyConfig \<Rightarrow> string" where
  "fmt_s_NotifyConfig c =
    ''{'' @ join_space [WebhookURL c, ''%!s(bool='' @ fmt_bool (Dry c) @ '')''] @ ''}''"

subsection \<open>The functions of the file\<close>

definition Kind :: "NotifyConfig \<Rightarrow> string" where
  "Kind c = ''discord''"

definition Config :: "NotifyConfig \<Rightarrow> event list \<times> error option" where
  "Config c =
    ((if Dry c then [Log InfoLevel (''Notification '' @ Kind c @ '' is running on Dry mode!'')]
      else []), None)"

text \<open>The three bytes of the stopwatch sign (U+23F1) in UTF-8, and a line feed and a tab.\<close>

definition stopwatch :: string where
  "stopwatch = [CHR 0xE2, CHR 0x8F, CHR 0xB1]"

definition LF :: string where
  "LF = [CHR 0x0A]"

definition TAB :: string where
  "TAB = [CHR 0x09]"

text \<open>
  \<open>NewDiscord\<close>. The description is
  \<^verbatim>\<open>fmt.Sprintf("%s %s - <stopwatch> %s\n```%s```", result.Status.Emoji(), result.Endpoint, rtt, result.Message)\<close>,
  where \<open>%s\<close> prints the \<open>Duration\<close> \<open>rtt\<close> through its \<open>String\<close> method.
\<close>

definition NewDiscord :: "probe_pkg \<Rightarrow> NotifyConfig \<Rightarrow> Result \<Rightarrow> Discord" where
  \<open>NewDiscord P c result =
    (let discord = \<lparr>Username = ''Easeprobe'', AvatarURL = ''https://megaease.cn/favicon.png'',
                     Content = [], Embeds = []\<rparr>;
         color = (if Status result \<noteq> StatusUp then 10945283 else 1091331);
         rtt = Round (RoundTripTime result) Millisecond;
         description =
           Emoji P (Status result) @ '' '' @ Endpoint result @ '' - '' @ stopwatch @ '' ''
           @ Duration_String rtt @ LF @ ''```'' @ Message result @ ''```''
     in discord\<lparr>Embeds := Embeds discord @
          [\<lparr>Author = \<lparr>Author.Name = [], Author.URL = [], Author.IconURL = []\<rparr>,
            Title = probe_pkg.Title P result,
            URL = [],
            Color = color,
            Description = description,
            Timestamp = Format_RFC3339 (UTC (StartTime result)),
            Thumbnail = \<lparr>Thumbnail.URL = ''https://megaease.cn/favicon.png''\<rparr>,
            Fields = [],
            Footer = \<lparr>Text = ''Probed at'', Footer.IconURL = ''https://megaease.cn/favicon.png''\<rparr>\<rparr>]\<rparr>)\<close>

text \<open>
  \<open>NewEmbed\<close>. The description is \<open>fmt.Sprintf(message, ...)\<close> for the message
  \<^verbatim>\<open>"**Availability**\n>\t" + " **Up**:  `%s`  **Down** `%s`  -  **SLA**: `%.2f %%`" +
  "\n**Probe Times**\n>\t**Total** : `%d` ( %s )" +
  "\n**Lastest Probe**\n>\t%s | %s" +
  "\n>\t`%s ` "\<close>
  and the title is \<^verbatim>\<open>fmt.Sprintf("%s - %s", result.Name, result.Endpoint)\<close>.
\<close>

definition NewEmbed :: "probe_pkg \<Rightarrow> world \<Rightarrow> NotifyConfig \<Rightarrow> Result \<Rightarrow> Embed" where
  \<open>NewEmbed P W c result =
    (let desc =
           ''**Availability**'' @ LF @ ''>'' @ TAB
           @ '' **Up**:  `'' @ Duration_String (Round (UpTime (Stat result)) Second)
           @ ''`  **Down** `'' @ Duration_String (Round (DownTime (Stat result)) Second)
           @ ''`  -  **SLA**: `'' @ SLA_2f P result @ '' %`''
           @ LF @ ''**Probe Times**'' @ LF @ ''>'' @ TAB
           @ ''**Total** : `'' @ Itoa (Total (Stat result))
           @ ''` ( '' @ StatStatusText P (Stat result) Makerdown @ '' )''
           @ LF @ ''**Lastest Probe**'' @ LF @ ''>'' @ TAB
           @ Time_Format W (UTC (StartTime result)) (TimeFormat result)
           @ '' | '' @ (Emoji P (Status result) @ '' '' @ Status_String P (Status result))
           @ LF @ ''>'' @ TAB @ ''`'' @ Message result @ '' ` '';
         embed =
           \<lparr>Author = \<lparr>Author.Name = [], Author.URL = [], Author.IconURL = []\<rparr>,
            Title = Result.Name result @ '' - '' @ Endpoint result,
            URL = [],
            Color = 239,
            Description = desc,
            Timestamp = [],
            Thumbnail = \<lparr>Thumbnail.URL = []\<rparr>,
            Fields = [],
            Footer = \<lparr>Text = [], Footer.IconURL = []\<rparr>\<rparr>
     in embed)\<close>

text \<open>
  \<open>NewEmbeds\<close>: the loop \<^verbatim>\<open>for _, p := range probers\<close> appends one embed for each prober.
\<close>

fun NewEmbeds_loop ::
  "probe_pkg \<Rightarrow> world \<Rightarrow> NotifyConfig \<Rightarrow> Discord \<Rightarrow> Prober list \<Rightarrow> Discord" where
  "NewEmbeds_loop P W c discord [] = discord"
| "NewEmbeds_loop P W c discord (p # probers) =
    NewEmbeds_loop P W c
      (discord\<lparr>Embeds := Embeds discord @ [NewEmbed P W c (Result p)]\<rparr>) probers"

definition NewEmbeds :: "probe_pkg \<Rightarrow> world \<Rightarrow> NotifyConfig \<Rightarrow> Prober list \<Rightarrow> Discord" where
  "NewEmbeds P W c probers =
    (let discord = \<lparr>Username = ''Easeprobe'', AvatarURL = ''https://megaease.cn/favicon.png'',
                     Content = ''**Overall SLA Report**'', Embeds = []\<rparr>
     in NewEmbeds_loop P W c discord probers)"

text \<open>
  \<open>http.NewRequest\<close> fails when the URL does not parse (the method \<open>POST\<close> is valid);
  otherwise the request has no header yet and is not marked to close the connection.
\<close>

definition MethodPost :: string where
  "MethodPost = ''POST''"

definition http_NewRequest :: "world \<Rightarrow> string \<Rightarrow> string \<Rightarrow> string \<Rightarrow> error + Request" where
  "http_NewRequest W method url body =
    (case url_Parse W url of
       Some err \<Rightarrow> Inl err
     | None \<Rightarrow> Inr \<lparr>Method = method, ReqURL = url, Header = [], Body = body, Close = False\<rparr>)"

definition Header_Add ::
  "(string \<times> string) list \<Rightarrow> string \<Rightarrow> string \<Rightarrow> (string \<times> string) list" where
  "Header_Add h key v = h @ [(key, v)]"

text \<open>
  The functions below call \<open>json.Marshal\<close> and test the error it returns. Each of them
  is modelled in two steps, so that both outcomes of that test are branches of the
  model: the body of the function over a marshaller \<open>marshal\<close> that may return an error
  (the names with the suffix \<open>_with\<close>), and the function itself, which is its body at
  \<open>json_Marshal\<close>.

  \<open>SendDiscordNotification\<close> returns the events it causes (a call of \<open>client.Do\<close> at
  most) and its result: \<open>None\<close> for \<open>nil\<close>. The error of the last branch is
  \<^verbatim>\<open>fmt.Errorf("Error response from Discord [%d] - [%s]", resp.StatusCode, buf.String())\<close>.
\<close>

definition SendDiscordNotification_with ::
  "(Discord \<Rightarrow> error + string) \<Rightarrow> world \<Rightarrow> NotifyConfig \<Rightarrow> Discord
     \<Rightarrow> event list \<times> error option" where
  "SendDiscordNotification_with marshal W c discord =
    (case marshal discord of
       Inl err \<Rightarrow> ([], Some err)
     | Inr json \<Rightarrow>
        (case http_NewRequest W MethodPost (WebhookURL c) json of
           Inl err \<Rightarrow> ([], Some err)
         | Inr req \<Rightarrow>
            (let req = req\<lparr>Close := True\<rparr>;
                 req = req\<lparr>Header := Header_Add (Header req) ''Content-Type'' ''application/json''\<rparr>;
                 client = \<lparr>Timeout = 10 * Second\<rparr>
             in case client_Do W client req of
                  Inl err \<Rightarrow> ([HTTPDo client req], Some err)
                | Inr resp \<Rightarrow>
                   (let buf = RespBody resp in
                    if StatusCode resp \<noteq> 204 then
                      ([HTTPDo client req],
                       Some (GoError (''Error response from Discord ['' @ Itoa (StatusCode resp)
                                      @ ''] - ['' @ buf @ '']'')))
                    else ([HTTPDo client req], None)))))"

definition SendDiscordNotification ::
  "world \<Rightarrow> NotifyConfig \<Rightarrow> Discord \<Rightarrow> event list \<times> error option" where
  "SendDiscordNotification W c discord =
     SendDiscordNotification_with (json_Marshal W) W c discord"

text \<open>
  \<open>DryNotify\<close> and \<open>DryNotifyStat\<close>: \<^verbatim>\<open>log.Errorf("error : %v", err)\<close> or
  \<^verbatim>\<open>log.Infof("[%s] Dry notify - %s", c.Kind(), string(json))\<close>.
\<close>

definition DryNotify_with ::
  "(Discord \<Rightarrow> error + string) \<Rightarrow> probe_pkg \<Rightarrow> world \<Rightarrow> NotifyConfig \<Rightarrow> Result
     \<Rightarrow> event list" where
  "DryNotify_with marshal P W c result =
    (let discord = NewDiscord P c result in
     case marshal discord of
       Inl err \<Rightarrow> [Log ErrorLevel (''error : '' @ Error err)]
     | Inr json \<Rightarrow> [Log InfoLevel (''['' @ Kind c @ ''] Dry notify - '' @ json)])"

definition DryNotify :: "probe_pkg \<Rightarrow> world \<Rightarrow> NotifyConfig \<Rightarrow> Result \<Rightarrow> event list" where
  "DryNotify P W c result = DryNotify_with (json_Marshal W) P W c result"

definition DryNotifyStat_with ::
  "(Discord \<Rightarrow> error + string) \<Rightarrow> probe_pkg \<Rightarrow> world \<Rightarrow> NotifyConfig \<Rightarrow> Prober list
     \<Rightarrow> event list" where
  "DryNotifyStat_with marshal P W c probers =
    (let discord = NewEmbeds P W c probers in
     case marshal discord of
       Inl err \<Rightarrow> [Log ErrorLevel (''error : '' @ Error err)]
     | Inr json \<Rightarrow> [Log InfoLevel (''['' @ Kind c @ ''] Dry notify - '' @ json)])"

definition DryNotifyStat ::
  "probe_pkg \<Rightarrow> world \<Rightarrow> NotifyConfig \<Rightarrow> Prober list \<Rightarrow> event list" where
  "DryNotifyStat P W c probers = DryNotifyStat_with (json_Marshal W) P W c probers"

text \<open>
  \<open>Notify\<close> has no result; the model returns the events of the call in order. Its log
  calls are \<^verbatim>\<open>log.Errorf("%v", err)\<close>, \<^verbatim>\<open>log.Errorf("Notify[%s] - %v", c.Kind(), discord)\<close>,
  \<^verbatim>\<open>log.Errorf("Notify[%s] - %s", c.Kind(), string(json))\<close> and
  \<^verbatim>\<open>log.Infof("Sent the Discord notification for %s (%s)!", result.Name, result.Endpoint)\<close>.
\<close>

definition Notify_with ::
  "(Discord \<Rightarrow> error + string) \<Rightarrow> probe_pkg \<Rightarrow> world \<Rightarrow> NotifyConfig \<Rightarrow> Result
     \<Rightarrow> event list" where
  "Notify_with marshal P W c result =
    (if Dry c then DryNotify_with marshal P W c result
     else
       let discord = NewDiscord P c result;
           (sent, err) = SendDiscordNotification_with marshal W c discord
       in case err of
            Some err \<Rightarrow>
              sent @ [Log ErrorLevel (Error err)]
              @ (case marshal discord of
                   Inl err \<Rightarrow> [Log ErrorLevel (''Notify['' @ Kind c @ ''] - '' @ fmt_v_Discord discord)]
                 | Inr json \<Rightarrow> [Log ErrorLevel (''Notify['' @ Kind c @ ''] - '' @ json)])
          | None \<Rightarrow>
              sent @ [Log InfoLevel (''Sent the Discord notification for '' @ Result.Name result
                                     @ '' ('' @ Endpoint result @ '')!'')])"

definition Notify :: "probe_pkg \<Rightarrow> world \<Rightarrow> NotifyConfig \<Rightarrow> Result \<Rightarrow> event list" where
  "Notify P W c result = Notify_with (json_Marshal W) P W c result"

text \<open>
  \<open>NotifyStat\<close>. Its second error line is
  \<^verbatim>\<open>log.Errorf("Notify[%s] - %s", c, c.Kind(), string(json))\<close>: three operands for two verbs,
  so \<open>fmt\<close> prints the config under the first verb, the kind under the second, and the
  JSON text as an extra operand. The last line is
  \<^verbatim>\<open>log.Infoln("Sent the Statstics to Slack Successfully!")\<close>.
\<close>

definition NotifyStat_with ::
  "(Discord \<Rightarrow> error + string) \<Rightarrow> probe_pkg \<Rightarrow> world \<Rightarrow> NotifyConfig \<Rightarrow> Prober list
     \<Rightarrow> event list" where
  "NotifyStat_with marshal P W c probers =
    (if Dry c then DryNotifyStat_with marshal P W c probers
     else
       let discord = NewEmbeds P W c probers;
           (sent, err) = SendDiscordNotification_with marshal W c discord
       in case err of
            Some err \<Rightarrow>
              sent @ [Log ErrorLevel (Error err)]
              @ (case marshal discord of
                   Inl err \<Rightarrow> [Log ErrorLevel (''Notify['' @ Kind c @ ''] - '' @ fmt_v_Discord discord)]
                 | Inr json \<Rightarrow>
                     [Log ErrorLevel (''Notify['' @ fmt_s_NotifyConfig c @ ''] - '' @ Kind c
                                      @ ''%!(EXTRA string='' @ json @ '')'')])
          | None \<Rightarrow> sent @ [Log InfoLevel ''Sent the Statstics to Slack Successfully!''])"

definition NotifyStat ::
  "probe_pkg \<Rightarrow> world \<Rightarrow> NotifyConfig \<Rightarrow> Prober list \<Rightarrow> event list" where
  "NotifyStat P W c probers = NotifyStat_with (json_Marshal W) P W c probers"

subsection \<open>Definitions that follow the words of the specification\<close>

text \<open>
  "Rounded to the nearest millisecond", "to the nearest second": the multiple of \<open>m\<close>
  nearest to \<open>d\<close>, a value halfway between two multiples going away from zero.
\<close>

definition nearest_multiple :: "int \<Rightarrow> int \<Rightarrow> int" where
  "nearest_multiple d m = sgn d * ((\<bar>d\<bar> + m div 2) div m * m)"

text \<open>
  "Parsing that string back": a parser for the timestamps of RFC 3339 in the form that
  \<open>NewDiscord\<close> writes, \<^verbatim>\<open>YYYY-MM-DDTHH:MM:SSZ\<close>, with the checks of the ranges that
  \<open>time.Parse\<close> makes; any other text is rejected. The result is the instant in UTC.
  \<open>daysSinceYear1\<close> counts the days from 1 January of year 1 to 1 January of a year.
\<close>

definition digit_val :: "char \<Rightarrow> nat option" where
  "digit_val c =
    (if (48::nat) \<le> of_char c \<and> of_char c \<le> (57::nat) then Some (of_char c - 48) else None)"

fun atoi_loop :: "nat \<Rightarrow> string \<Rightarrow> nat option" where
  "atoi_loop n [] = Some n"
| "atoi_loop n (c # cs) =
    (case digit_val c of None \<Rightarrow> None | Some d \<Rightarrow> atoi_loop (10 * n + d) cs)"

definition atoi :: "string \<Rightarrow> int option" where
  "atoi s = (if s = [] then None else map_option int (atoi_loop 0 s))"

definition daysSinceYear1 :: "int \<Rightarrow> int" where
  "daysSinceYear1 year =
    (let y = year - 1 in 365 * y + y div 4 - y div 100 + y div 400)"

definition daysIn :: "int \<Rightarrow> int \<Rightarrow> int" where
  "daysIn month year =
    (if month = 2 \<and> isLeap year then 29
     else daysBefore ! nat month - daysBefore ! nat (month - 1))"

definition Parse_RFC3339 :: "string \<Rightarrow> Time option" where
  "Parse_RFC3339 s =
    (if length s = 20 \<and> s ! 4 = CHR ''-'' \<and> s ! 7 = CHR ''-'' \<and> s ! 10 = CHR ''T''
        \<and> s ! 13 = CHR '':'' \<and> s ! 16 = CHR '':'' \<and> s ! 19 = CHR ''Z''
     then
       (case (atoi (take 4 s), atoi (take 2 (drop 5 s)), atoi (take 2 (drop 8 s)),
              atoi (take 2 (drop 11 s)), atoi (take 2 (drop 14 s)), atoi (take 2 (drop 17 s))) of
          (Some year, Some month, Some day, Some hour, Some minute, Some sec) \<Rightarrow>
            if 1 \<le> month \<and> month \<le> 12 \<and> 1 \<le> day \<and> day \<le> daysIn month year
               \<and> hour < 24 \<and> minute < 60 \<and> sec < 60
            then
              Some \<lparr>unixSec =
                      (daysSinceYear1 year + daysBefore ! nat (month - 1)
                       + (if isLeap year \<and> 3 \<le> month then 1 else 0) + (day - 1)
                       - unixEpochDay) * 86400
                      + hour * 3600 + minute * 60 + sec,
                    nsec = 0, offset = 0\<rparr>
            else None
        | _ \<Rightarrow> None)
     else None)"

definition sameInstant :: "Time \<Rightarrow> Time \<Rightarrow> bool" where
  "sameInstant t u = (unixSec t = unixSec u \<and> nsec t = nsec u)"

text \<open>The number of days of a year.\<close>

definition yearLen :: "int \<Rightarrow> int" where
  "yearLen year = (if isLeap year then 366 else 365)"

subsection \<open>Sample values\<close>

text \<open>
  Concrete values at which the theorems below are instantiated: helpers of package
  \<open>probe\<close>; a world whose server answers with a given status, and one whose transport
  fails (in both, a URL that starts with a colon does not parse, as in \<open>net/url\<close>);
  three configurations; a probe result.
\<close>

definition sample_probe :: probe_pkg where
  "sample_probe =
    \<lparr>probe_pkg.Title = (\<lambda>r. Result.Name r @ '' Failure''),
     Emoji = (\<lambda>s. ''!''),
     Status_String = (\<lambda>s. (case s of StatusUp \<Rightarrow> ''up'' | StatusDown \<Rightarrow> ''down'' | StatusUnknown \<Rightarrow> ''unknown'')),
     SLA_2f = (\<lambda>r. ''99.50''),
     StatStatusText = (\<lambda>s f. ''up: 6, down: 1'')\<rparr>"

definition sample_world :: "int \<Rightarrow> world" where
  "sample_world code =
    \<lparr>json_encode = (\<lambda>j. ''{}''),
     url_Parse = (\<lambda>u. if take 1 u = '':'' then Some (GoError ''missing protocol scheme'') else None),
     client_Do = (\<lambda>cl req. Inr \<lparr>StatusCode = code, RespBody = ''bad request''\<rparr>),
     Time_Format = (\<lambda>t layout. layout)\<rparr>"

definition sample_world_offline :: world where
  "sample_world_offline = (sample_world 204)\<lparr>client_Do := (\<lambda>cl req. Inl (GoError ''dial tcp: timeout''))\<rparr>"

definition sample_config :: NotifyConfig where
  "sample_config = \<lparr>WebhookURL = ''https://discord.example/hook'', Dry = False\<rparr>"

definition sample_config_dry :: NotifyConfig where
  "sample_config_dry = \<lparr>WebhookURL = ''https://discord.example/hook'', Dry = True\<rparr>"

definition sample_config_badurl :: NotifyConfig where
  "sample_config_badurl = \<lparr>WebhookURL = ''://discord.example/hook'', Dry = False\<rparr>"

definition sample_result :: Result where
  "sample_result =
    \<lparr>Result.Name = ''web'', Endpoint = ''http://x'',
     StartTime = \<lparr>unixSec = 1640995200, nsec = 500000000, offset = 3600\<rparr>,
     RoundTripTime = 1234567, Status = StatusDown, Message = ''boom'', TimeFormat = ''2006'',
     Stat = \<lparr>UpTime = 90500000000, DownTime = 1499999999, Total = 7\<rparr>\<rparr>"

definition sample_prober :: Prober where
  "sample_prober = \<lparr>Result = sample_result\<rparr>"

text \<open>A marshaller that fails on every payload, as \<open>json.Marshal\<close> does on a value with no JSON form.\<close>

definition sample_marshal_failing :: "Discord \<Rightarrow> error + string" where
  "sample_marshal_failing discord = Inl (GoError ''json: unsupported value'')"

section \<open>Properties\<close>

subsection \<open>The embeds of a report\<close>

lemma NewEmbeds_loop_map:
  "NewEmbeds_loop P W c discord probers =
     discord\<lparr>Embeds := Embeds discord @ map (\<lambda>p. NewEmbed P W c (Result p)) probers\<rparr>"
  by (induction probers arbitrary: discord) simp_all

lemma Embeds_NewEmbeds:
  "Embeds (NewEmbeds P W c probers) = map (\<lambda>p. NewEmbed P W c (Result p)) probers"
  by (simp add: NewEmbeds_def NewEmbeds_loop_map)

lemma Content_NewEmbeds:
  "Content (NewEmbeds P W c probers) = ''**Overall SLA Report**''"
  by (simp add: NewEmbeds_def NewEmbeds_loop_map)

lemma Color_NewEmbed: "Color (NewEmbed P W c result) = 239"
  by (simp add: NewEmbed_def)

lemma Timestamp_NewEmbed: "Timestamp (NewEmbed P W c result) = []"
  by (simp add: NewEmbed_def)

lemma Embeds_NewDiscord:
  "\<exists>e. Embeds (NewDiscord P c result) = [e] \<and>
       Color e = (if Status result = StatusUp then 1091331 else 10945283) \<and>
       Timestamp e = Format_RFC3339 (UTC (StartTime result)) \<and>
       Description e =
         Emoji P (Status result) @ '' '' @ Endpoint result @ '' - '' @ stopwatch @ '' ''
         @ Duration_String (Round (RoundTripTime result) Millisecond) @ LF
         @ [CHR 0x60, CHR 0x60, CHR 0x60] @ Message result @ [CHR 0x60, CHR 0x60, CHR 0x60]"
  by (simp add: NewDiscord_def Let_def)

text \<open>
  C1: for every probe result, \<open>NewDiscord\<close> gives a payload with exactly one embed; its
  colour is 1091331 when the status is Up and 10945283 for every other status, and
  the two colours differ.
\<close>

theorem C1_NewDiscord_single_embed_colour:
  "(\<exists>e. Embeds (NewDiscord P c result) = [e] \<and>
        Color e = (if Status result = StatusUp then 1091331 else 10945283))
   \<and> (1091331 :: int) \<noteq> 10945283"
  using Embeds_NewDiscord [of P c result] by auto

text \<open>
  C4: for every list of probers, the empty one included, \<open>NewEmbeds\<close> gives a payload
  with as many embeds as probers; every embed has the colour 239 and an empty
  timestamp, 239 is the colour of no embed that \<open>NewDiscord\<close> makes, and the content of
  the payload is the line \<open>**Overall SLA Report**\<close>.
\<close>

theorem C4_NewEmbeds_blocks:
  "length (Embeds (NewEmbeds P W c probers)) = length probers
   \<and> (\<forall>e \<in> set (Embeds (NewEmbeds P W c probers)).
         Color e = 239 \<and> Timestamp e = []
         \<and> (\<forall>c' result. \<forall>e' \<in> set (Embeds (NewDiscord P c' result)). Color e \<noteq> Color e'))
   \<and> Content (NewEmbeds P W c probers) = ''**Overall SLA Report**''
   \<and> Embeds (NewEmbeds P W c []) = []"
proof -
  have "Color e' \<noteq> 239" if "e' \<in> set (Embeds (NewDiscord P c' result))" for c' result e'
    using that Embeds_NewDiscord [of P c' result] by (auto split: if_splits)
  then show ?thesis
    by (auto simp: Embeds_NewEmbeds Content_NewEmbeds Color_NewEmbed Timestamp_NewEmbed)
qed

theorem C4_witness:
  "length (Embeds (NewEmbeds sample_probe (sample_world 204) sample_config [sample_prober, sample_prober])) = 2
   \<and> list_all (\<lambda>e. Color e = 239 \<and> Timestamp e = [])
        (Embeds (NewEmbeds sample_probe (sample_world 204) sample_config [sample_prober, sample_prober]))
   \<and> Color (hd (Embeds (NewEmbeds sample_probe (sample_world 204) sample_config [sample_prober, sample_prober])))
       \<noteq> Color (hd (Embeds (NewDiscord sample_probe sample_config sample_result)))"
proof -
  let ?d = "NewEmbeds sample_probe (sample_world 204) sample_config [sample_prober, sample_prober]"
  note C = C4_NewEmbeds_blocks [of sample_probe "sample_world 204" sample_config "[sample_prober, sample_prober]"]
  have len: "length (Embeds ?d) = 2" using C by simp
  have all: "\<forall>e \<in> set (Embeds ?d). Color e = 239 \<and> Timestamp e = []" using C by blast
  have one: "Embeds (NewDiscord sample_probe sample_config sample_result) \<noteq> []"
    using Embeds_NewDiscord [of sample_probe sample_config sample_result] by auto
  have "Embeds ?d \<noteq> []" using len by auto
  then have "hd (Embeds ?d) \<in> set (Embeds ?d)" by simp
  moreover have "hd (Embeds (NewDiscord sample_probe sample_config sample_result))
      \<in> set (Embeds (NewDiscord sample_probe sample_config sample_result))" using one by simp
  ultimately have "Color (hd (Embeds ?d))
      \<noteq> Color (hd (Embeds (NewDiscord sample_probe sample_config sample_result)))"
    using C by blast
  with len all show ?thesis by (simp add: list_all_iff)
qed

text \<open>
  C10: \<open>NewEmbeds\<close> keeps the order of its input: the embed at index \<open>i\<close> is \<open>NewEmbed\<close>
  of the result of the prober at index \<open>i\<close>.
\<close>

theorem C10_NewEmbeds_order:
  "i < length probers \<Longrightarrow>
     i < length (Embeds (NewEmbeds P W c probers)) \<and>
     Embeds (NewEmbeds P W c probers) ! i = NewEmbed P W c (Result (probers ! i))"
  by (simp add: Embeds_NewEmbeds)

theorem C10_witness:
  "(1::nat) < length [sample_prober, \<lparr>Result = sample_result\<lparr>Result.Name := ''db''\<rparr>\<rparr>]
   \<and> Title (Embeds (NewEmbeds sample_probe (sample_world 204) sample_config
        [sample_prober, \<lparr>Result = sample_result\<lparr>Result.Name := ''db''\<rparr>\<rparr>]) ! 1) = ''db - http://x''"
proof -
  have h: "(1::nat) < length [sample_prober, \<lparr>Result = sample_result\<lparr>Result.Name := ''db''\<rparr>\<rparr>]"
    by simp
  show ?thesis
    using h C10_NewEmbeds_order [OF h, of sample_probe "sample_world 204" sample_config]
    by (simp add: NewEmbed_def sample_result_def)
qed

text \<open>
  C5: the payload that \<open>NewEmbeds\<close> builds for eleven probers has eleven embeds, one
  more than the ten that the comment on \<open>Embed\<close> gives as the limit of a message.
\<close>

theorem C5_NewEmbeds_eleven:
  "length (Embeds (NewEmbeds P W c (replicate 11 p))) = 11"
  by (simp add: Embeds_NewEmbeds)

text \<open>
  C9: the JSON object of an \<open>Author\<close> has the members \<open>name\<close>, \<open>URL\<close> and \<open>IconURL\<close>: the
  tags of the second and the third field are not of the form \<^verbatim>\<open>key:"value"\<close>, so the
  encoder falls back on the Go names of the fields and not on \<open>url\<close> and \<open>icon_url\<close>.
\<close>

theorem C9_Author_json_members:
  "Author_json a =
     JObject [(''name'', JString (Author.Name a)), (''URL'', JString (Author.URL a)),
              (''IconURL'', JString (Author.IconURL a))]"
  by (simp add: Author_json_def json_struct_def json_key_def Lookup.simps Unquote_def
      isValidTag_def List.map_filter_simps Let_def)

subsection \<open>Delivery\<close>

lemma json_Marshal_text:
  "json_Marshal W discord = Inr (json_encode W (Discord_json discord))"
  by (simp add: json_Marshal_def)

lemma SendDiscordNotification_bad_url:
  "url_Parse W (WebhookURL c) = Some err \<Longrightarrow> SendDiscordNotification W c discord = ([], Some err)"
  by (simp add: SendDiscordNotification_def SendDiscordNotification_with_def
      http_NewRequest_def json_Marshal_def)

lemma SendDiscordNotification_request:
  assumes "url_Parse W (WebhookURL c) = None"
  shows "SendDiscordNotification W c discord =
     (let req = \<lparr>Method = ''POST'', ReqURL = WebhookURL c,
                  Header = [(''Content-Type'', ''application/json'')],
                  Body = json_encode W (Discord_json discord), Close = True\<rparr>;
          client = \<lparr>Timeout = 10 * Second\<rparr>
      in ([HTTPDo client req],
          (case client_Do W client req of
             Inl err \<Rightarrow> Some err
           | Inr resp \<Rightarrow>
               if StatusCode resp = 204 then None
               else Some (GoError (''Error response from Discord ['' @ Itoa (StatusCode resp)
                                   @ ''] - ['' @ RespBody resp @ '']'')))))"
  using assms
  by (simp add: SendDiscordNotification_def SendDiscordNotification_with_def
      http_NewRequest_def MethodPost_def Header_Add_def json_Marshal_def Let_def
      split: sum.splits)

lemma digits_400: "digits 400 = ''400''"
  by (simp add: digits.simps digit_char_def)

lemma url_Parse_sample_world:
  "url_Parse (sample_world code) (WebhookURL sample_config) = None"
  "url_Parse sample_world_offline (WebhookURL sample_config) = None"
  "url_Parse (sample_world code) (WebhookURL sample_config_badurl) = Some (GoError ''missing protocol scheme'')"
  by (simp_all add: sample_world_def sample_world_offline_def sample_config_def
      sample_config_badurl_def)

text \<open>
  C2, as the claim states it, fails: with a webhook URL that \<open>http.NewRequest\<close> rejects,
  \<open>SendDiscordNotification\<close> returns at the guard of lines 240 to 242 and issues no
  request at all.
\<close>

theorem C2_counterexample:
  "SendDiscordNotification (sample_world 204) sample_config_badurl
     (NewDiscord sample_probe sample_config_badurl sample_result)
   = ([], Some (GoError ''missing protocol scheme''))"
  by (rule SendDiscordNotification_bad_url [OF url_Parse_sample_world(3)])

text \<open>
  C2, amended: when \<open>http.NewRequest\<close> accepts the webhook URL, \<open>SendDiscordNotification\<close>
  makes exactly one call of \<open>client.Do\<close>: a POST to the webhook URL with the header
  \<open>Content-Type: application/json\<close>, the JSON text of the payload as its body, the
  connection marked to close, and a client timeout of 10 seconds. It returns \<open>nil\<close> if
  and only if the call returns a response with status 204; for a response with any
  other status it returns the error with the status code and the body in its text; a
  fault of the transport is returned as it is. When the URL is rejected, no request
  is issued and the error of \<open>http.NewRequest\<close> is returned.
\<close>

theorem C2_SendDiscordNotification:
  "(url_Parse W (WebhookURL c) = None \<longrightarrow>
     (\<exists>req client.
        req = \<lparr>Method = ''POST'', ReqURL = WebhookURL c,
               Header = [(''Content-Type'', ''application/json'')],
               Body = json_encode W (Discord_json discord), Close = True\<rparr>
        \<and> client = \<lparr>Timeout = 10 * Second\<rparr> \<and> Timeout client = 10000000000
        \<and> fst (SendDiscordNotification W c discord) = [HTTPDo client req]
        \<and> (snd (SendDiscordNotification W c discord) = None
             \<longleftrightarrow> (\<exists>resp. client_Do W client req = Inr resp \<and> StatusCode resp = 204))
        \<and> (\<forall>resp. client_Do W client req = Inr resp \<and> StatusCode resp \<noteq> 204 \<longrightarrow>
              snd (SendDiscordNotification W c discord)
                = Some (GoError (''Error response from Discord ['' @ Itoa (StatusCode resp)
                                 @ ''] - ['' @ RespBody resp @ '']'')))
        \<and> (\<forall>err. client_Do W client req = Inl err \<longrightarrow>
              snd (SendDiscordNotification W c discord) = Some err)))
   \<and> (\<forall>err. url_Parse W (WebhookURL c) = Some err \<longrightarrow>
         SendDiscordNotification W c discord = ([], Some err))"
proof (intro conjI impI allI)
  assume u: "url_Parse W (WebhookURL c) = None"
  show "\<exists>req client.
        req = \<lparr>Method = ''POST'', ReqURL = WebhookURL c,
               Header = [(''Content-Type'', ''application/json'')],
               Body = json_encode W (Discord_json discord), Close = True\<rparr>
        \<and> client = \<lparr>Timeout = 10 * Second\<rparr> \<and> Timeout client = 10000000000
        \<and> fst (SendDiscordNotification W c discord) = [HTTPDo client req]
        \<and> (snd (SendDiscordNotification W c discord) = None
             \<longleftrightarrow> (\<exists>resp. client_Do W client req = Inr resp \<and> StatusCode resp = 204))
        \<and> (\<forall>resp. client_Do W client req = Inr resp \<and> StatusCode resp \<noteq> 204 \<longrightarrow>
              snd (SendDiscordNotification W c discord)
                = Some (GoError (''Error response from Discord ['' @ Itoa (StatusCode resp)
                                 @ ''] - ['' @ RespBody resp @ '']'')))
        \<and> (\<forall>err. client_Do W client req = Inl err \<longrightarrow>
              snd (SendDiscordNotification W c discord) = Some err)"
    unfolding SendDiscordNotification_request [OF u]
    by (auto simp: Let_def Second_def Millisecond_def Microsecond_def Nanosecond_def
        split: sum.splits)
next
  fix err
  assume "url_Parse W (WebhookURL c) = Some err"
  then show "SendDiscordNotification W c discord = ([], Some err)"
    by (rule SendDiscordNotification_bad_url)
qed

theorem C2_witness:
  "SendDiscordNotification (sample_world 204) sample_config (NewDiscord sample_probe sample_config sample_result)
     = ([HTTPDo \<lparr>Timeout = 10000000000\<rparr>
           \<lparr>Method = ''POST'', ReqURL = ''https://discord.example/hook'',
            Header = [(''Content-Type'', ''application/json'')], Body = ''{}'', Close = True\<rparr>], None)
   \<and> snd (SendDiscordNotification (sample_world 400) sample_config (NewDiscord sample_probe sample_config sample_result))
     = Some (GoError ''Error response from Discord [400] - [bad request]'')
   \<and> snd (SendDiscordNotification sample_world_offline sample_config (NewDiscord sample_probe sample_config sample_result))
     = Some (GoError ''dial tcp: timeout'')
   \<and> SendDiscordNotification (sample_world 204) sample_config_badurl (NewDiscord sample_probe sample_config_badurl sample_result)
     = ([], Some (GoError ''missing protocol scheme''))"
  using
    C2_SendDiscordNotification [of "sample_world 204" sample_config
      "NewDiscord sample_probe sample_config sample_result"]
    C2_SendDiscordNotification [of "sample_world 400" sample_config
      "NewDiscord sample_probe sample_config sample_result"]
    C2_SendDiscordNotification [of sample_world_offline sample_config
      "NewDiscord sample_probe sample_config sample_result"]
    C2_SendDiscordNotification [of "sample_world 204" sample_config_badurl
      "NewDiscord sample_probe sample_config_badurl sample_result"]
  unfolding url_Parse_sample_world
  by (auto simp: sample_world_def sample_world_offline_def sample_config_def Itoa_def
      digits_400 prod_eq_iff)

subsection \<open>Dry run\<close>

lemma no_HTTPDo_DryNotify: "HTTPDo cl req \<notin> set (DryNotify P W c result)"
  by (simp add: DryNotify_def DryNotify_with_def json_Marshal_def)

lemma no_HTTPDo_DryNotifyStat: "HTTPDo cl req \<notin> set (DryNotifyStat P W c probers)"
  by (simp add: DryNotifyStat_def DryNotifyStat_with_def json_Marshal_def)

text \<open>
  C3: with the dry-run flag set, \<open>Notify\<close> and \<open>NotifyStat\<close> make no call of the HTTP
  client, whatever the input, and their one event is a log line at info level that
  holds the JSON text of the payload.
\<close>

theorem C3_dry_run:
  assumes "Dry c"
  shows "(\<forall>cl req. HTTPDo cl req \<notin> set (Notify P W c result)
                  \<and> HTTPDo cl req \<notin> set (NotifyStat P W c probers))
    \<and> Notify P W c result
        = [Log InfoLevel (''[discord] Dry notify - ''
                          @ json_encode W (Discord_json (NewDiscord P c result)))]
    \<and> NotifyStat P W c probers
        = [Log InfoLevel (''[discord] Dry notify - ''
                          @ json_encode W (Discord_json (NewEmbeds P W c probers)))]
    \<and> json_Marshal W (NewDiscord P c result)
        = Inr (json_encode W (Discord_json (NewDiscord P c result)))
    \<and> json_Marshal W (NewEmbeds P W c probers)
        = Inr (json_encode W (Discord_json (NewEmbeds P W c probers)))"
  using assms
  by (simp add: Notify_def NotifyStat_def Notify_with_def NotifyStat_with_def
      DryNotify_with_def DryNotifyStat_with_def Kind_def json_Marshal_def)

theorem C3_witness:
  "Dry sample_config_dry
   \<and> Notify sample_probe (sample_world 204) sample_config_dry sample_result
       = [Log InfoLevel ''[discord] Dry notify - {}'']
   \<and> NotifyStat sample_probe (sample_world 204) sample_config_dry [sample_prober]
       = [Log InfoLevel ''[discord] Dry notify - {}'']"
proof -
  have d: "Dry sample_config_dry" by (simp add: sample_config_dry_def)
  have e: "json_encode (sample_world 204) x = ''{}''" for x
    by (simp add: sample_world_def)
  show ?thesis
    using d C3_dry_run [OF d, of sample_probe "sample_world 204" sample_result "[sample_prober]"]
    by (simp add: e)
qed

subsection \<open>Rounding of durations\<close>

lemma half_up_div:
  fixes a m :: int
  assumes "0 \<le> a" "0 < m"
  shows "(a + m div 2) div m * m = (if 2 * (a mod m) < m then a - a mod m else a - a mod m + m)"
proof -
  define q r where "q = a div m" and "r = a mod m"
  have a: "a = m * q + r" and r: "0 \<le> r" "r < m"
    using assms by (simp_all add: q_def r_def)
  have qm: "q * m = a - r" using a by (simp add: algebra_simps)
  have "a + m div 2 = m * q + (r + m div 2)" using a by simp
  then have "(a + m div 2) div m = (m * q + (r + m div 2)) div m"
    by (simp only:)
  also have "\<dots> = q + (r + m div 2) div m"
    using assms by (intro div_mult_self4) simp
  finally have "(a + m div 2) div m = q + (r + m div 2) div m" .
  moreover have "(r + m div 2) div m = (if 2 * r < m then 0 else 1)"
  proof (cases "2 * r < m")
    case True
    then have "r + m div 2 < m" by linarith
    then show ?thesis using True r by (simp add: div_pos_pos_trivial)
  next
    case False
    then have "m \<le> r + m div 2" "r + m div 2 < m + m" using r by linarith+
    then have "(r + m div 2) div m = 1"
      by (intro int_div_pos_eq [where r = "r + m div 2 - m"]) simp_all
    then show ?thesis using False by simp
  qed
  ultimately have "(a + m div 2) div m * m = (q + (if 2 * r < m then 0 else 1)) * m"
    by simp
  also have "\<dots> = (if 2 * r < m then a - r else a - r + m)"
    using qm by (simp add: algebra_simps)
  finally show ?thesis by (simp add: r_def)
qed

lemma nearest_multiple_nonneg:
  "0 \<le> d \<Longrightarrow> 0 < m \<Longrightarrow>
     nearest_multiple d m = (if 2 * (d mod m) < m then d - d mod m else d - d mod m + m)"
  using half_up_div [of d m] by (cases "d = 0") (simp_all add: nearest_multiple_def)

lemma nearest_multiple_neg:
  "d < 0 \<Longrightarrow> 0 < m \<Longrightarrow>
     nearest_multiple d m = (if 2 * ((- d) mod m) < m then d + (- d) mod m else d + (- d) mod m - m)"
  using half_up_div [of "- d" m] by (simp add: nearest_multiple_def)

lemma nearest_multiple_dvd: "m dvd nearest_multiple d m"
  by (simp add: nearest_multiple_def)

lemma nearest_multiple_close:
  assumes "0 < m"
  shows "2 * \<bar>nearest_multiple d m - d\<bar> \<le> m"
proof (cases "d < 0")
  case True
  have "0 \<le> (- d) mod m" "(- d) mod m < m" using assms by simp_all
  then show ?thesis
    unfolding nearest_multiple_neg [OF True assms] by (simp split: if_splits)
next
  case False
  then have d: "0 \<le> d" by simp
  have "0 \<le> d mod m" "d mod m < m" using assms by simp_all
  then show ?thesis
    unfolding nearest_multiple_nonneg [OF d assms] by (simp split: if_splits)
qed

lemma int64_id: "- (2 ^ 63) \<le> x \<Longrightarrow> x < 2 ^ 63 \<Longrightarrow> int64 x = x"
  by (simp add: int64_def)

lemma int64_wrap_up:
  assumes "2 ^ 63 \<le> x" "x < 2 ^ 64"
  shows "int64 x = x - 2 ^ 64"
proof -
  have "(x + 2 ^ 63) mod 2 ^ 64 = x + 2 ^ 63 - 2 ^ 64"
    using assms by (intro int_mod_pos_eq [where q = 1]) simp_all
  then show ?thesis by (simp add: int64_def)
qed

lemma int64_wrap_down:
  assumes "- (2 ^ 64) \<le> x" "x < - (2 ^ 63)"
  shows "int64 x = x + 2 ^ 64"
proof -
  have "(x + 2 ^ 63) mod 2 ^ 64 = x + 2 ^ 63 + 2 ^ 64"
    using assms by (intro int_mod_pos_eq [where q = "- 1"]) simp_all
  then show ?thesis by (simp add: int64_def)
qed

lemma lessThanHalf_iff:
  "0 \<le> r \<Longrightarrow> r < m \<Longrightarrow> m \<le> maxDuration \<Longrightarrow> lessThanHalf r m = (2 * r < m)"
  by (simp add: lessThanHalf_def maxDuration_def)

lemma Round_nonneg:
  assumes "0 \<le> d" "d \<le> maxDuration" "0 < m" "m \<le> maxDuration"
  shows "Round d m =
     (if 2 * (d mod m) < m then d - d mod m
      else if d + m - d mod m \<le> maxDuration then d + m - d mod m else maxDuration)"
proof -
  define r where "r = d mod m"
  have r: "0 \<le> r" "r < m" "r \<le> d"
    using assms by (simp_all add: r_def zmod_le_nonneg_dividend)
  have g: "go_rem d m = r"
    using assms by (cases "d = 0") (simp_all add: go_rem_def r_def)
  have l: "lessThanHalf r m = (2 * r < m)"
    using r assms by (simp add: lessThanHalf_iff)
  have i1: "int64 (d - r) = d - r"
    using r assms by (intro int64_id) (simp_all add: maxDuration_def)
  have i2: "int64 (d + m - r) = d + m - r" if "d + m - r \<le> maxDuration"
    using that r assms by (intro int64_id) (simp_all add: maxDuration_def)
  have i3: "int64 (d + m - r) = d + m - r - 2 ^ 64" if "\<not> d + m - r \<le> maxDuration"
    using that r assms by (intro int64_wrap_up) (simp_all add: maxDuration_def)
  show ?thesis
    using assms r
    by (simp add: Round_def g l i1 i2 i3 Let_def r_def [symmetric] maxDuration_def)
qed

lemma Round_neg:
  assumes "d < 0" "minDuration \<le> d" "0 < m" "m \<le> maxDuration"
  shows "Round d m =
     (if 2 * ((- d) mod m) < m then d + (- d) mod m
      else if minDuration \<le> d - m + (- d) mod m then d - m + (- d) mod m else minDuration)"
proof -
  define r where "r = (- d) mod m"
  have r: "0 \<le> r" "r < m" "r \<le> - d"
    using assms by (simp_all add: r_def zmod_le_nonneg_dividend)
  have g: "go_rem d m = - r"
    using assms by (simp add: go_rem_def r_def)
  have i0: "int64 r = r"
    using r assms by (intro int64_id) (simp_all add: maxDuration_def)
  have l: "lessThanHalf r m = (2 * r < m)"
    using r assms by (simp add: lessThanHalf_iff)
  have i1: "int64 (d + r) = d + r"
    using r assms by (intro int64_id) (simp_all add: minDuration_def)
  have i2: "int64 (d - m + r) = d - m + r" if "minDuration \<le> d - m + r"
    using that r assms by (intro int64_id) (simp_all add: minDuration_def)
  have i3: "int64 (d - m + r) = d - m + r + 2 ^ 64" if "\<not> minDuration \<le> d - m + r"
    using that r assms by (intro int64_wrap_down) (simp_all add: minDuration_def maxDuration_def)
  show ?thesis
    using assms r
    by (simp add: Round_def g i0 l i1 i2 i3 Let_def r_def [symmetric] minDuration_def maxDuration_def)
qed

text \<open>\<open>Round\<close> is the nearest multiple, cut off at the ends of the range of \<open>int64\<close>.\<close>

lemma Round_nearest_multiple:
  assumes "minDuration \<le> d" "d \<le> maxDuration" "0 < m" "m \<le> maxDuration"
  shows "Round d m =
     (if nearest_multiple d m > maxDuration then maxDuration
      else if nearest_multiple d m < minDuration then minDuration
      else nearest_multiple d m)"
proof (cases "d < 0")
  case True
  define r where "r = (- d) mod m"
  have "0 \<le> r" "r < m" "r \<le> - d"
    using assms True by (simp_all add: r_def zmod_le_nonneg_dividend)
  then show ?thesis
    using assms True
    unfolding Round_neg [OF True assms(1,3,4)] nearest_multiple_neg [OF True assms(3)]
      r_def [symmetric] minDuration_def maxDuration_def
    by auto
next
  case False
  then have d: "0 \<le> d" by simp
  define r where "r = d mod m"
  have "0 \<le> r" "r < m" "r \<le> d"
    using assms d by (simp_all add: r_def zmod_le_nonneg_dividend)
  then show ?thesis
    using assms d
    unfolding Round_nonneg [OF d assms(2,3,4)] nearest_multiple_nonneg [OF d assms(3)]
      r_def [symmetric] minDuration_def maxDuration_def
    by auto
qed

lemma fmtFrac_loop_numeral:
  "fmtFrac_loop (numeral k) buf v print =
    (let digit = v mod 10;
         print = (print \<or> digit \<noteq> 0);
         buf = (if print then digit_char digit # buf else buf)
     in fmtFrac_loop (pred_numeral k) buf (v div 10) print)"
  by (simp only: numeral_eq_Suc [of k] fmtFrac_loop.simps)

lemma digits_numeral:
  "digits (numeral k) =
     (if numeral k < (10::nat) then [digit_char (numeral k)]
      else digits (numeral k div 10) @ [digit_char (numeral k mod 10)])"
  by (rule digits.simps)

lemma digits_small: "digits 0 = ''0''" "digits (Suc 0) = ''1''"
  by (simp_all add: digits.simps digit_char_def)

lemma fmtInt_loop_digits: "fmtInt_loop buf v = (if v = 0 then buf else digits v @ buf)"
proof (induction buf v rule: fmtInt_loop.induct)
  case (1 buf v)
  show ?case
  proof (cases "v = 0")
    case True
    then show ?thesis by (simp add: fmtInt_loop.simps)
  next
    case False
    then have "fmtInt_loop buf v = fmtInt_loop (digit_char (v mod 10) # buf) (v div 10)"
      by (subst fmtInt_loop.simps) simp
    also have "\<dots> = (if v div 10 = 0 then digit_char (v mod 10) # buf
                        else digits (v div 10) @ digit_char (v mod 10) # buf)"
      using False by (subst "1.IH") simp_all
    also have "\<dots> = digits v @ buf"
      by (subst (2) digits.simps) (auto simp: div_eq_0_iff)
    finally show ?thesis using False by simp
  qed
qed

lemma fmtInt_digits: "fmtInt buf v = digits v @ buf"
  by (simp add: fmtInt_def fmtInt_loop_digits digits_small)

lemmas Duration_eval =
  Duration_String_def fmtFrac_def fmtFrac_loop_numeral fmtInt_digits digits_numeral digits_small
  digit_char_def Let_def Second_def Millisecond_def Microsecond_def Nanosecond_def micro_sign_def

lemma abs_close_bound:
  fixes n d m :: int
  shows "2 * \<bar>n - d\<bar> \<le> m \<Longrightarrow> 2 * \<bar>n\<bar> \<le> m + 2 * \<bar>d\<bar>"
  by (simp add: abs_if split: if_splits)

lemma nearest_multiple_fits:
  fixes d b m :: int
  assumes "2 * \<bar>d\<bar> < 2 * m * b + m" "0 < m" "m * b \<le> maxDuration"
  shows "minDuration \<le> nearest_multiple d m \<and> nearest_multiple d m \<le> maxDuration"
proof -
  obtain k where k: "nearest_multiple d m = m * k"
    using nearest_multiple_dvd [of m d] by (auto elim: dvdE)
  have "2 * \<bar>m * k - d\<bar> \<le> m"
    using nearest_multiple_close [OF assms(2), of d] by (simp add: k)
  then have "2 * \<bar>m * k\<bar> \<le> m + 2 * \<bar>d\<bar>" by (rule abs_close_bound)
  also have "\<dots> < m + (2 * m * b + m)" using assms(1) by simp
  also have "\<dots> = 2 * (m * (b + 1))" by (simp add: algebra_simps)
  finally have "\<bar>m * k\<bar> < m * (b + 1)" by simp
  then have "m * \<bar>k\<bar> < m * (b + 1)" using assms(2) by (simp add: abs_mult)
  then have "\<bar>k\<bar> < b + 1" using assms(2) by simp
  then have "\<bar>k\<bar> \<le> b" by simp
  then have "m * \<bar>k\<bar> \<le> m * b" using assms(2) by simp
  moreover have "\<bar>m * k\<bar> = m * \<bar>k\<bar>" using assms(2) by (simp add: abs_mult)
  ultimately have "\<bar>m * k\<bar> \<le> maxDuration" using assms(3) by linarith
  then show ?thesis
    unfolding k minDuration_def maxDuration_def by (auto simp: abs_le_iff)
qed

lemma Millisecond_eq: "Millisecond = 1000000"
  by (simp add: Millisecond_def Microsecond_def Nanosecond_def)

lemma Second_eq: "Second = 1000000000"
  by (simp add: Second_def Millisecond_eq)

lemma Round_Millisecond:
  assumes "\<bar>d\<bar> < 9223372036854500000"
  shows "Round d Millisecond = nearest_multiple d Millisecond"
proof -
  have "minDuration \<le> nearest_multiple d 1000000 \<and> nearest_multiple d 1000000 \<le> maxDuration"
    using assms by (intro nearest_multiple_fits [where b = 9223372036854]) (simp_all add: maxDuration_def)
  then show ?thesis
    using assms unfolding Millisecond_eq
    by (subst Round_nearest_multiple) (simp_all add: minDuration_def maxDuration_def)
qed

lemma Round_Second:
  assumes "\<bar>d\<bar> < 9223372036500000000"
  shows "Round d Second = nearest_multiple d Second"
proof -
  have "minDuration \<le> nearest_multiple d 1000000000 \<and> nearest_multiple d 1000000000 \<le> maxDuration"
    using assms by (intro nearest_multiple_fits [where b = 9223372036]) (simp_all add: maxDuration_def)
  then show ?thesis
    using assms unfolding Second_eq
    by (subst Round_nearest_multiple) (simp_all add: minDuration_def maxDuration_def)
qed

lemma Round_maxDuration: "Round 9223372036854775807 Millisecond = 9223372036854775807"
  by (simp add: Round_def Millisecond_eq go_rem_def lessThanHalf_def int64_def maxDuration_def)

lemma Duration_String_maxDuration:
  "Duration_String 9223372036854775807 = ''2562047h47m16.854775807s''"
  by (simp add: Duration_eval)

lemma Duration_String_1ms: "Duration_String 1000000 = ''1ms''"
  by (simp add: Duration_eval)

lemma Description_NewDiscord:
  "Description (hd (Embeds (NewDiscord P c result))) =
     Emoji P (Status result) @ '' '' @ Endpoint result @ '' - '' @ stopwatch @ '' ''
     @ Duration_String (Round (RoundTripTime result) Millisecond) @ LF
     @ [CHR 0x60, CHR 0x60, CHR 0x60] @ Message result @ [CHR 0x60, CHR 0x60, CHR 0x60]"
  using Embeds_NewDiscord [of P c result] by auto

lemma Description_NewEmbed:
  "Description (NewEmbed P W c result) =
     ''**Availability**'' @ LF @ ''>'' @ TAB
     @ '' **Up**:  '' @ [CHR 0x60] @ Duration_String (Round (UpTime (Stat result)) Second)
     @ [CHR 0x60] @ ''  **Down** '' @ [CHR 0x60]
     @ Duration_String (Round (DownTime (Stat result)) Second)
     @ [CHR 0x60] @ ''  -  **SLA**: '' @ [CHR 0x60] @ SLA_2f P result @ '' %'' @ [CHR 0x60]
     @ LF @ ''**Probe Times**'' @ LF @ ''>'' @ TAB
     @ ''**Total** : '' @ [CHR 0x60] @ Itoa (Total (Stat result))
     @ [CHR 0x60] @ '' ( '' @ StatStatusText P (Stat result) Makerdown @ '' )''
     @ LF @ ''**Lastest Probe**'' @ LF @ ''>'' @ TAB
     @ Time_Format W (UTC (StartTime result)) (TimeFormat result)
     @ '' | '' @ Emoji P (Status result) @ '' '' @ Status_String P (Status result)
     @ LF @ ''>'' @ TAB @ [CHR 0x60] @ Message result @ '' '' @ [CHR 0x60] @ '' ''"
  by (simp add: NewEmbed_def)

text \<open>
  C8, as the claim states it, fails at the end of the range of \<open>Duration\<close>: \<open>Round\<close>
  returns the largest \<open>Duration\<close> when the nearest multiple does not fit an \<open>int64\<close>,
  and the description then shows a round-trip time that is no multiple of a
  millisecond.
\<close>

theorem C8_counterexample:
  "Description (hd (Embeds (NewDiscord sample_probe sample_config
       (sample_result\<lparr>RoundTripTime := 9223372036854775807\<rparr>))))
     = ''! http://x - '' @ stopwatch @ '' 2562047h47m16.854775807s'' @ LF
       @ [CHR 0x60, CHR 0x60, CHR 0x60] @ ''boom'' @ [CHR 0x60, CHR 0x60, CHR 0x60]
   \<and> Round 9223372036854775807 Millisecond = 9223372036854775807
   \<and> \<not> Millisecond dvd (9223372036854775807 :: int)"
proof -
  have "\<not> Millisecond dvd (9223372036854775807 :: int)"
    by (simp add: Millisecond_eq)
  then show ?thesis
    by (simp add: Description_NewDiscord Round_maxDuration Duration_String_maxDuration
        sample_result_def sample_probe_def)
qed

text \<open>
  C8, amended: when the nearest multiple fits an \<open>int64\<close> (a round-trip time below
  9223372036854500000 ns in absolute value; an uptime and a downtime below
  9223372036500000000 ns), the description of \<open>NewDiscord\<close> shows the round-trip time
  rounded to the nearest millisecond and the description of \<open>NewEmbed\<close> shows the uptime
  and the downtime rounded to the nearest second, halfway values away from zero. The
  rounded value is a multiple of the unit and differs from the duration by half a
  unit at most; 1234567 ns is shown as \<open>1ms\<close>.
\<close>

theorem C8_rounding:
  assumes "\<bar>RoundTripTime result\<bar> < 9223372036854500000"
    and "\<bar>UpTime (Stat result)\<bar> < 9223372036500000000"
    and "\<bar>DownTime (Stat result)\<bar> < 9223372036500000000"
  shows "\<exists>rtt up down.
      rtt = nearest_multiple (RoundTripTime result) Millisecond
    \<and> Millisecond dvd rtt \<and> 2 * \<bar>rtt - RoundTripTime result\<bar> \<le> Millisecond
    \<and> up = nearest_multiple (UpTime (Stat result)) Second
    \<and> Second dvd up \<and> 2 * \<bar>up - UpTime (Stat result)\<bar> \<le> Second
    \<and> down = nearest_multiple (DownTime (Stat result)) Second
    \<and> Second dvd down \<and> 2 * \<bar>down - DownTime (Stat result)\<bar> \<le> Second
    \<and> (\<exists>e. Embeds (NewDiscord P c result) = [e] \<and>
           Description e =
             Emoji P (Status result) @ '' '' @ Endpoint result @ '' - '' @ stopwatch @ '' ''
             @ Duration_String rtt @ LF
             @ [CHR 0x60, CHR 0x60, CHR 0x60] @ Message result @ [CHR 0x60, CHR 0x60, CHR 0x60])
    \<and> Description (NewEmbed P W c result) =
         ''**Availability**'' @ LF @ ''>'' @ TAB
         @ '' **Up**:  '' @ [CHR 0x60] @ Duration_String up
         @ [CHR 0x60] @ ''  **Down** '' @ [CHR 0x60] @ Duration_String down
         @ [CHR 0x60] @ ''  -  **SLA**: '' @ [CHR 0x60] @ SLA_2f P result @ '' %'' @ [CHR 0x60]
         @ LF @ ''**Probe Times**'' @ LF @ ''>'' @ TAB
         @ ''**Total** : '' @ [CHR 0x60] @ Itoa (Total (Stat result))
         @ [CHR 0x60] @ '' ( '' @ StatStatusText P (Stat result) Makerdown @ '' )''
         @ LF @ ''**Lastest Probe**'' @ LF @ ''>'' @ TAB
         @ Time_Format W (UTC (StartTime result)) (TimeFormat result)
         @ '' | '' @ Emoji P (Status result) @ '' '' @ Status_String P (Status result)
         @ LF @ ''>'' @ TAB @ [CHR 0x60] @ Message result @ '' '' @ [CHR 0x60] @ '' ''
    \<and> (RoundTripTime result = 1234567 \<longrightarrow> rtt = 1000000 \<and> Duration_String rtt = ''1ms'')"
proof -
  have ms: "(0::int) < Millisecond" and s: "(0::int) < Second"
    by (simp_all add: Millisecond_eq Second_eq)
  have ex: "nearest_multiple 1234567 Millisecond = 1000000"
    by (simp add: nearest_multiple_def Millisecond_eq)
  have one: "Duration_String 1000000 = ''1ms''"
    by (rule Duration_String_1ms)
  obtain e where e: "Embeds (NewDiscord P c result) = [e]"
    "Description e =
       Emoji P (Status result) @ '' '' @ Endpoint result @ '' - '' @ stopwatch @ '' ''
       @ Duration_String (Round (RoundTripTime result) Millisecond) @ LF
       @ [CHR 0x60, CHR 0x60, CHR 0x60] @ Message result @ [CHR 0x60, CHR 0x60, CHR 0x60]"
    using Embeds_NewDiscord [of P c result] by blast
  show ?thesis
    using e ex one
    by (simp add: Round_Millisecond [OF assms(1)] Round_Second [OF assms(2)]
        Round_Second [OF assms(3)] nearest_multiple_dvd nearest_multiple_close [OF ms]
        nearest_multiple_close [OF s] Description_NewEmbed)
qed

theorem C8_witness:
  "\<bar>RoundTripTime sample_result\<bar> < 9223372036854500000
   \<and> \<bar>UpTime (Stat sample_result)\<bar> < 9223372036500000000
   \<and> \<bar>DownTime (Stat sample_result)\<bar> < 9223372036500000000
   \<and> Description (hd (Embeds (NewDiscord sample_probe sample_config sample_result)))
       = ''! http://x - '' @ stopwatch @ '' 1ms'' @ LF
         @ [CHR 0x60, CHR 0x60, CHR 0x60] @ ''boom'' @ [CHR 0x60, CHR 0x60, CHR 0x60]
   \<and> nearest_multiple (UpTime (Stat sample_result)) Second = 91000000000
   \<and> nearest_multiple (DownTime (Stat sample_result)) Second = 1000000000"
proof -
  have h: "\<bar>RoundTripTime sample_result\<bar> < 9223372036854500000"
    "\<bar>UpTime (Stat sample_result)\<bar> < 9223372036500000000"
    "\<bar>DownTime (Stat sample_result)\<bar> < 9223372036500000000"
    by (simp_all add: sample_result_def)
  have r: "RoundTripTime sample_result = 1234567" "Status sample_result = StatusDown"
    "Endpoint sample_result = ''http://x''" "Message sample_result = ''boom''"
    "Emoji sample_probe s = ''!''" for s
    by (simp_all add: sample_result_def sample_probe_def)
  have n: "nearest_multiple (UpTime (Stat sample_result)) Second = 91000000000"
    "nearest_multiple (DownTime (Stat sample_result)) Second = 1000000000"
    by (simp_all add: nearest_multiple_def Second_eq sample_result_def)
  from C8_rounding [OF h, where P = sample_probe and c = sample_config and W = "sample_world 204"]
  obtain e where e: "Embeds (NewDiscord sample_probe sample_config sample_result) = [e]"
    and d: "Description e =
        Emoji sample_probe (Status sample_result) @ '' '' @ Endpoint sample_result @ '' - ''
        @ stopwatch @ '' ''
        @ Duration_String (nearest_multiple (RoundTripTime sample_result) Millisecond) @ LF
        @ [CHR 0x60, CHR 0x60, CHR 0x60] @ Message sample_result @ [CHR 0x60, CHR 0x60, CHR 0x60]"
    and x: "RoundTripTime sample_result = 1234567 \<longrightarrow>
        Duration_String (nearest_multiple (RoundTripTime sample_result) Millisecond) = ''1ms''"
    by blast
  have "Description (hd (Embeds (NewDiscord sample_probe sample_config sample_result)))
       = ''! http://x - '' @ stopwatch @ '' 1ms'' @ LF
         @ [CHR 0x60, CHR 0x60, CHR 0x60] @ ''boom'' @ [CHR 0x60, CHR 0x60, CHR 0x60]"
    using x by (simp add: e d r)
  with h n show ?thesis by simp
qed

subsection \<open>The timestamp of a notification\<close>

text \<open>
  A quotient that is cut off at 3 (\<open>n - n / 4\<close> for \<open>n\<close> from 0 to 4), and what is left.
\<close>

lemma cut_off_cycle:
  fixes d c :: int
  assumes "0 \<le> d" "d \<le> 4 * c" "0 < c"
  defines "n \<equiv> d div c - d div c div 4"
  shows "0 \<le> n" "n \<le> 3" "0 \<le> d - c * n" "d - c * n \<le> c" "n < 3 \<longrightarrow> d - c * n < c"
    "d - c * n = c \<longrightarrow> d = 4 * c"
proof -
  define q where "q = d div c"
  have "d = c * q + d mod c" by (simp add: q_def)
  moreover have "0 \<le> d mod c" "d mod c < c" using assms(3) by simp_all
  ultimately have q: "c * q \<le> d" "d < c * q + c" by linarith+
  have "0 \<le> q" using assms by (simp add: q_def pos_imp_zdiv_nonneg_iff)
  moreover have "q \<le> 4"
  proof (rule ccontr)
    assume "\<not> q \<le> 4"
    then have "5 \<le> q" by simp
    then have "c * 5 \<le> c * q" using assms(3) by simp
    with q(1) assms show False by simp
  qed
  ultimately consider "q = 0" | "q = 1" | "q = 2" | "q = 3" | "q = 4" by linarith
  then show "0 \<le> n" "n \<le> 3" "0 \<le> d - c * n" "d - c * n \<le> c" "n < 3 \<longrightarrow> d - c * n < c"
    "d - c * n = c \<longrightarrow> d = 4 * c"
    using q assms(1,2) unfolding n_def q_def [symmetric] by (cases; simp)+
qed

lemma mod_eq_0_top:
  fixes x m :: int
  assumes "0 < x" "x \<le> m"
  shows "x mod m = 0 \<longleftrightarrow> x = m"
proof (cases "x = m")
  case True
  then show ?thesis by simp
next
  case False
  then have "x mod m = x" using assms by (intro mod_pos_pos_trivial) simp_all
  then show ?thesis using assms False by simp
qed

lemma year_of_cycles:
  fixes n400 n100 n4 n1 :: int
  assumes "0 \<le> n100" "n100 \<le> 3" "0 \<le> n4" "n4 \<le> 24" "0 \<le> n1" "n1 \<le> 3"
  defines "year \<equiv> 400 * n400 + 100 * n100 + 4 * n4 + n1 + 1"
  shows "daysSinceYear1 year = 146097 * n400 + 36524 * n100 + 1461 * n4 + 365 * n1"
    and "isLeap year \<longleftrightarrow> n1 = 3 \<and> (n4 < 24 \<or> n100 = 3)"
proof -
  define z where "z = year - 1"
  have z: "z = 400 * n400 + 100 * n100 + 4 * n4 + n1" by (simp add: z_def year_def)
  have q4: "z div 4 = 100 * n400 + 25 * n100 + n4"
    using assms(5,6) by (intro int_div_pos_eq [where r = n1]) (simp_all add: z)
  have q100: "z div 100 = 4 * n400 + n100"
    using assms(3-6) by (intro int_div_pos_eq [where r = "4 * n4 + n1"]) (simp_all add: z)
  have q400: "z div 400 = n400"
    using assms(1-6) by (intro int_div_pos_eq [where r = "100 * n100 + 4 * n4 + n1"]) (simp_all add: z)
  show "daysSinceYear1 year = 146097 * n400 + 36524 * n100 + 1461 * n4 + 365 * n1"
    unfolding daysSinceYear1_def Let_def z_def [symmetric] q4 q100 q400 by (simp add: z)
  have m4: "year mod 4 = (n1 + 1) mod 4"
  proof -
    have "year = 4 * (100 * n400 + 25 * n100 + n4) + (n1 + 1)" by (simp add: year_def)
    then show ?thesis by (metis mod_mult_self4)
  qed
  have m100: "year mod 100 = (4 * n4 + n1 + 1) mod 100"
  proof -
    have "year = 100 * (4 * n400 + n100) + (4 * n4 + n1 + 1)" by (simp add: year_def)
    then show ?thesis by (metis mod_mult_self4)
  qed
  have m400: "year mod 400 = (100 * n100 + 4 * n4 + n1 + 1) mod 400"
  proof -
    have "year = 400 * n400 + (100 * n100 + 4 * n4 + n1 + 1)" by (simp add: year_def)
    then show ?thesis by (metis mod_mult_self4)
  qed
  have a: "(n1 + 1) mod 4 = 0 \<longleftrightarrow> n1 = 3"
  proof -
    have "0 < n1 + 1" "n1 + 1 \<le> 4" using assms(5,6) by linarith+
    then have "(n1 + 1) mod 4 = 0 \<longleftrightarrow> n1 + 1 = 4" by (rule mod_eq_0_top)
    then show ?thesis by simp
  qed
  have b: "(4 * n4 + n1 + 1) mod 100 = 0 \<longleftrightarrow> n4 = 24 \<and> n1 = 3"
  proof -
    have "0 < 4 * n4 + n1 + 1" "4 * n4 + n1 + 1 \<le> 100" using assms(3-6) by linarith+
    then have "(4 * n4 + n1 + 1) mod 100 = 0 \<longleftrightarrow> 4 * n4 + n1 + 1 = 100"
      by (rule mod_eq_0_top)
    also have "\<dots> \<longleftrightarrow> n4 = 24 \<and> n1 = 3" using assms(3-6) by linarith
    finally show ?thesis .
  qed
  have c: "(100 * n100 + 4 * n4 + n1 + 1) mod 400 = 0 \<longleftrightarrow> n100 = 3 \<and> n4 = 24 \<and> n1 = 3"
  proof -
    have "0 < 100 * n100 + 4 * n4 + n1 + 1" "100 * n100 + 4 * n4 + n1 + 1 \<le> 400"
      using assms(1-6) by linarith+
    then have "(100 * n100 + 4 * n4 + n1 + 1) mod 400 = 0
        \<longleftrightarrow> 100 * n100 + 4 * n4 + n1 + 1 = 400"
      by (rule mod_eq_0_top)
    also have "\<dots> \<longleftrightarrow> n100 = 3 \<and> n4 = 24 \<and> n1 = 3" using assms(1-6) by linarith
    finally show ?thesis .
  qed
  show "isLeap year \<longleftrightarrow> n1 = 3 \<and> (n4 < 24 \<or> n100 = 3)"
    unfolding isLeap_def m4 m100 m400 a b c using assms(4) by auto
qed

lemma absDate_correct:
  assumes "absDate days = (year, yday)"
  shows "daysSinceYear1 year + yday = days" "0 \<le> yday" "yday < yearLen year"
proof -
  define n400 where "n400 = days div 146097"
  define d1 where "d1 = days - 146097 * n400"
  define n100 where "n100 = d1 div 36524 - d1 div 36524 div 4"
  define d2 where "d2 = d1 - 36524 * n100"
  define n4 where "n4 = d2 div 1461"
  define d3 where "d3 = d2 - 1461 * n4"
  define n1 where "n1 = d3 div 365 - d3 div 365 div 4"
  define yd where "yd = d3 - 365 * n1"
  have "absDate days = (400 * n400 + 100 * n100 + 4 * n4 + n1 + 1, yd)"
    by (simp only: absDate_def Let_def n400_def d1_def n100_def d2_def n4_def d3_def
        n1_def yd_def)
  with assms have y: "year = 400 * n400 + 100 * n100 + 4 * n4 + n1 + 1" and yday: "yday = yd"
    by simp_all
  have d1: "0 \<le> d1" "d1 \<le> 4 * 36524"
    unfolding d1_def n400_def by linarith+
  have pos: "(0::int) < 36524" "(0::int) < 365" by simp_all
  note c1 = cut_off_cycle [OF d1 pos(1), folded n100_def, folded d2_def]
  have n4: "0 \<le> n4" "n4 \<le> 24"
    and d3: "0 \<le> d3" "d3 \<le> 4 * 365" "n100 < 3 \<and> n4 = 24 \<longrightarrow> d3 < 1460"
    using c1(3,4,5) unfolding n4_def d3_def by linarith+
  note c2 = cut_off_cycle [OF d3(1,2) pos(2), folded n1_def, folded yd_def]
  have sum: "days = 146097 * n400 + 36524 * n100 + 1461 * n4 + 365 * n1 + yd"
    unfolding yd_def d3_def d2_def d1_def by simp
  note yc = year_of_cycles [OF c1(1,2) n4 c2(1,2), of n400, folded y]
  show "daysSinceYear1 year + yday = days"
    using sum yc(1) yday by simp
  show "0 \<le> yday" using c2(3) yday by simp
  show "yday < yearLen year"
    using c2(2,4,5,6) d3(3) n4(2) c1(2) yday unfolding yearLen_def yc(2) by auto
qed

lemma daysBefore_nth:
  "daysBefore ! 0 = 0" "daysBefore ! 1 = 31" "daysBefore ! 2 = 59" "daysBefore ! 3 = 90"
  "daysBefore ! 4 = 120" "daysBefore ! 5 = 151" "daysBefore ! 6 = 181" "daysBefore ! 7 = 212"
  "daysBefore ! 8 = 243" "daysBefore ! 9 = 273" "daysBefore ! 10 = 304" "daysBefore ! 11 = 334"
  "daysBefore ! 12 = 365" "daysBefore ! Suc 0 = 31"
  by (simp_all add: daysBefore_def)

text \<open>The month found by the estimate \<open>day / 31\<close> is the one whose days hold \<open>day\<close>.\<close>

lemma month_estimate:
  fixes day :: int
  assumes "0 \<le> day" "day \<le> 364"
  defines "m \<equiv> day div 31"
  defines "k \<equiv> (if day \<ge> daysBefore ! nat (m + 1) then m + 1 else m)"
  shows "0 \<le> k \<and> k \<le> 11 \<and> daysBefore ! nat k \<le> day \<and> day < daysBefore ! nat (k + 1)"
proof -
  have b: "31 * m \<le> day" "day < 31 * m + 31"
    unfolding m_def by linarith+
  with assms(1,2) have "0 \<le> m" "m \<le> 11" by linarith+
  then have "m = 0 \<or> m = 1 \<or> m = 2 \<or> m = 3 \<or> m = 4 \<or> m = 5 \<or> m = 6
    \<or> m = 7 \<or> m = 8 \<or> m = 9 \<or> m = 10 \<or> m = 11"
    by presburger
  then show ?thesis
    using b assms(2) unfolding k_def
    by (elim disjE) (simp_all add: daysBefore_nth)
qed

lemma monthDay_correct:
  assumes "0 \<le> yday" "yday < yearLen year" "monthDay year yday = (month, day)"
  shows "1 \<le> month \<and> month \<le> 12 \<and> 1 \<le> day \<and> day \<le> daysIn month year
       \<and> daysBefore ! nat (month - 1) + (if isLeap year \<and> 3 \<le> month then 1 else 0)
           + (day - 1) = yday"
proof (cases "isLeap year \<and> yday = 31 + 29 - 1")
  case True
  then have "month = 2" "day = 29" using assms(3) by (simp_all add: monthDay_def)
  then show ?thesis using True by (simp add: daysIn_def daysBefore_nth)
next
  case False
  define day0 where "day0 = (if isLeap year \<and> yday > 31 + 29 - 1 then yday - 1 else yday)"
  define m where "m = day0 div 31"
  define k where "k = (if day0 \<ge> daysBefore ! nat (m + 1) then m + 1 else m)"
  have d0: "0 \<le> day0" "day0 \<le> 364"
    using assms(1,2) False by (auto simp: day0_def yearLen_def split: if_splits)
  note est = month_estimate [OF d0, folded m_def, folded k_def]
  have "monthDay year yday =
      (if day0 \<ge> daysBefore ! nat (m + 1) then (m + 1 + 1, day0 - daysBefore ! nat (m + 1) + 1)
       else (m + 1, day0 - daysBefore ! nat m + 1))"
    using False by (auto simp: monthDay_def Let_def day0_def m_def)
  then have "monthDay year yday = (k + 1, day0 - daysBefore ! nat k + 1)"
    by (simp add: k_def)
  with assms(3) have md: "month = k + 1" "day = day0 - daysBefore ! nat k + 1" by simp_all
  from est have "k = 0 \<or> k = 1 \<or> k = 2 \<or> k = 3 \<or> k = 4 \<or> k = 5 \<or> k = 6
    \<or> k = 7 \<or> k = 8 \<or> k = 9 \<or> k = 10 \<or> k = 11"
    by presburger
  then show ?thesis
    using est False assms(1,2) unfolding md day0_def
    by (elim disjE) (auto simp: daysBefore_nth daysIn_def yearLen_def split: if_splits)
qed

lemma daysSinceYear1_div:
  "daysSinceYear1 y =
     365 * (y - 1) + (y - 1) div 4 - (y - 1) div 4 div 25 + (y - 1) div 4 div 25 div 4"
proof -
  have "(y - 1) div 100 = (y - 1) div 4 div 25"
    using zdiv_zmult2_eq [of 25 "y - 1" 4] by simp
  moreover have "(y - 1) div 400 = (y - 1) div 4 div 25 div 4"
    using zdiv_zmult2_eq [of 4 "y - 1" 100] zdiv_zmult2_eq [of 25 "y - 1" 4] by simp
  ultimately show ?thesis by (simp add: daysSinceYear1_def Let_def)
qed

lemma daysSinceYear1_low:
  assumes "y \<le> - 2"
  shows "daysSinceYear1 y \<le> - 732"
proof -
  define z a b c where "z = y - 1" and "a = z div 4" and "b = a div 25" and "c = b div 4"
  have z: "z \<le> - 3" using assms by (simp add: z_def)
  have a: "4 * a \<le> z" unfolding a_def by linarith
  have b: "a \<le> 25 * b + 24" unfolding b_def by linarith
  have c: "4 * c \<le> b" unfolding c_def by linarith
  have "daysSinceYear1 y = 365 * z + a - b + c"
    unfolding daysSinceYear1_div a_def b_def c_def z_def by simp
  then show ?thesis using a b c z by linarith
qed

lemma daysSinceYear1_high:
  assumes "10000 \<le> y"
  shows "3652059 \<le> daysSinceYear1 y"
proof -
  define z a b c where "z = y - 1" and "a = z div 4" and "b = a div 25" and "c = b div 4"
  have z: "9999 \<le> z" using assms by (simp add: z_def)
  have a: "z \<le> 4 * a + 3" unfolding a_def by linarith
  have b: "25 * b \<le> a" "a \<le> 25 * b + 24" unfolding b_def by linarith+
  have c: "b \<le> 4 * c + 3" unfolding c_def by linarith
  have a': "2499 \<le> a" using a z by linarith
  have b': "99 \<le> b" using b a' by linarith
  have c': "24 \<le> c" using c b' by linarith
  have "daysSinceYear1 y = 365 * z + a - b + c"
    unfolding daysSinceYear1_div a_def b_def c_def z_def by simp
  then show ?thesis using a' b c' z by linarith
qed

lemma daysSinceYear1_minus1: "daysSinceYear1 (- 1) = - 731" "yearLen (- 1) = 365"
  by (simp_all add: daysSinceYear1_def yearLen_def isLeap_def)

lemma year_in_range:
  assumes "absDate days = (year, yday)" "- 366 \<le> days" "days < 3652059"
  shows "0 \<le> year" "year < 10000"
proof -
  note c = absDate_correct [OF assms(1)]
  show "0 \<le> year"
  proof (rule ccontr)
    assume "\<not> 0 \<le> year"
    then consider "year = - 1" | "year \<le> - 2" by linarith
    then show False
    proof cases
      case 1
      then show False using c assms(2) by (simp add: daysSinceYear1_minus1)
    next
      case 2
      have "yearLen year \<le> 366" by (simp add: yearLen_def)
      then show False using daysSinceYear1_low [OF 2] c assms(2) by linarith
    qed
  qed
  show "year < 10000"
  proof (rule ccontr)
    assume "\<not> year < 10000"
    then have "10000 \<le> year" by simp
    then show False using daysSinceYear1_high [of year] c assms(3) by linarith
  qed
qed

lemma digit_val_digit_char: "d < 10 \<Longrightarrow> digit_val (digit_char d) = Some d"
proof -
  assume "d < 10"
  then have "d = 0 \<or> d = 1 \<or> d = 2 \<or> d = 3 \<or> d = 4 \<or> d = 5 \<or> d = 6 \<or> d = 7 \<or> d = 8 \<or> d = 9"
    by presburger
  then show ?thesis
    by (elim disjE) (simp_all add: digit_val_def digit_char_def)
qed

lemma digits_1: "n < 10 \<Longrightarrow> digits n = [digit_char n]"
  by (subst digits.simps) simp

lemma digits_2:
  assumes "10 \<le> n" "n < 100"
  shows "digits n = [digit_char (n div 10), digit_char (n mod 10)]"
proof -
  have "n div 10 < 10" using assms by linarith
  then show ?thesis using assms by (subst digits.simps) (simp add: digits_1)
qed

lemma digits_3:
  assumes "100 \<le> n" "n < 1000"
  shows "digits n = [digit_char (n div 100), digit_char (n div 10 mod 10), digit_char (n mod 10)]"
proof -
  have "10 \<le> n div 10" "n div 10 < 100" using assms by linarith+
  moreover have "n div 10 div 10 = n div 100" by (simp add: div_mult2_eq [symmetric])
  ultimately show ?thesis
    using assms by (subst digits.simps) (simp add: digits_2)
qed

lemma digits_4:
  assumes "1000 \<le> n" "n < 10000"
  shows "digits n = [digit_char (n div 1000), digit_char (n div 100 mod 10),
                     digit_char (n div 10 mod 10), digit_char (n mod 10)]"
proof -
  have "100 \<le> n div 10" "n div 10 < 1000" using assms by linarith+
  moreover have "n div 10 div 100 = n div 1000" "n div 10 div 10 = n div 100"
    by (simp_all add: div_mult2_eq [symmetric])
  ultimately show ?thesis
    using assms by (subst digits.simps) (simp add: digits_3)
qed

lemma digit_char_0: "digit_char 0 = CHR ''0''"
  by (simp add: digit_char_def)

lemma replicate_3: "replicate 3 x = [x, x, x]" and replicate_2: "replicate 2 x = [x, x]"
  by (simp_all add: numeral_3_eq_3 numeral_2_eq_2)

lemma appendInt_2:
  assumes "0 \<le> x" "x < 100"
  shows "appendInt x 2 = [digit_char (nat x div 10), digit_char (nat x mod 10)]"
proof (cases "nat x < 10")
  case True
  then show ?thesis
    using assms by (simp add: appendInt_def digits_1 digit_char_0)
next
  case False
  then have "10 \<le> nat x" "nat x < 100" using assms by linarith+
  then show ?thesis
    using assms by (simp add: appendInt_def digits_2)
qed

lemma appendInt_4:
  assumes "0 \<le> x" "x < 10000"
  shows "appendInt x 4 = [digit_char (nat x div 1000), digit_char (nat x div 100 mod 10),
                          digit_char (nat x div 10 mod 10), digit_char (nat x mod 10)]"
proof -
  consider "nat x < 10" | "10 \<le> nat x" "nat x < 100" | "100 \<le> nat x" "nat x < 1000"
    | "1000 \<le> nat x" "nat x < 10000"
    using assms by linarith
  then show ?thesis
  proof cases
    case 1
    then show ?thesis using assms
      by (simp add: appendInt_def digits_1 digit_char_0 replicate_3 replicate_2)
  next
    case 2
    then show ?thesis using assms
      by (simp add: appendInt_def digits_2 digit_char_0 replicate_3 replicate_2)
  next
    case 3
    then show ?thesis using assms
      by (simp add: appendInt_def digits_3 digit_char_0 replicate_3 replicate_2)
  next
    case 4
    then show ?thesis using assms
      by (simp add: appendInt_def digits_4 digit_char_0)
  qed
qed

lemma atoi_2:
  assumes "0 \<le> x" "x < 100"
  shows "atoi [digit_char (nat x div 10), digit_char (nat x mod 10)] = Some x"
proof -
  have "nat x div 10 < 10" "nat x mod 10 < 10" using assms by linarith+
  then show ?thesis
    using assms by (simp add: atoi_def digit_val_digit_char)
qed

lemma atoi_4:
  assumes "0 \<le> x" "x < 10000"
  shows "atoi [digit_char (nat x div 1000), digit_char (nat x div 100 mod 10),
               digit_char (nat x div 10 mod 10), digit_char (nat x mod 10)] = Some x"
proof -
  define n where "n = nat x"
  have n: "n < 10000" "x = int n" using assms by (simp_all add: n_def)
  have "n div 1000 < 10" using n by linarith
  moreover have "n div 100 mod 10 < 10" "n div 10 mod 10 < 10" "n mod 10 < 10" by simp_all
  moreover have "10 * (10 * (10 * (n div 1000) + n div 100 mod 10) + n div 10 mod 10) + n mod 10 = n"
  proof -
    have a: "n = 10 * (n div 10) + n mod 10" by simp
    have "n div 10 div 10 = n div 100" "n div 100 div 10 = n div 1000"
      by (simp_all add: div_mult2_eq [symmetric])
    then have b: "n div 10 = 10 * (n div 100) + n div 10 mod 10"
      and c: "n div 100 = 10 * (n div 1000) + n div 100 mod 10"
      by (metis mult_div_mod_eq)+
    have "10 * (10 * (10 * (n div 1000) + n div 100 mod 10) + n div 10 mod 10) + n mod 10
        = 10 * (10 * (n div 100) + n div 10 mod 10) + n mod 10"
      by (simp only: c [symmetric])
    also have "\<dots> = 10 * (n div 10) + n mod 10"
      by (simp only: b [symmetric])
    also have "\<dots> = n" by simp
    finally show ?thesis .
  qed
  ultimately show ?thesis
    by (simp add: atoi_def digit_val_digit_char n_def [symmetric] n(2))
qed

lemma daysIn_le: "1 \<le> month \<Longrightarrow> month \<le> 12 \<Longrightarrow> daysIn month year \<le> 31"
proof -
  assume "1 \<le> month" "month \<le> 12"
  then have "month = 1 \<or> month = 2 \<or> month = 3 \<or> month = 4 \<or> month = 5 \<or> month = 6
    \<or> month = 7 \<or> month = 8 \<or> month = 9 \<or> month = 10 \<or> month = 11 \<or> month = 12"
    by presburger
  then show ?thesis
    by (elim disjE) (simp_all add: daysIn_def daysBefore_nth)
qed

lemma clock_recompose:
  fixes secs :: int
  shows "secs div 3600 * 3600 + secs mod 3600 div 60 * 60 + secs mod 60 = secs"
proof -
  have "secs mod 3600 mod 60 = secs mod 60"
    by (rule mod_mod_cancel) simp
  then have "secs mod 3600 div 60 * 60 + secs mod 60 = secs mod 3600"
    by (metis div_mult_mod_eq)
  then show ?thesis
    by (metis add.assoc div_mult_mod_eq)
qed

lemma parse_fixed_form:
  assumes "0 \<le> year" "year < 10000" "0 \<le> month" "month < 100" "0 \<le> day" "day < 100"
    "0 \<le> hour" "hour < 100" "0 \<le> minute" "minute < 100" "0 \<le> sec" "sec < 100"
  shows "Parse_RFC3339
      (appendInt year 4 @ ''-'' @ appendInt month 2 @ ''-'' @ appendInt day 2 @ ''T''
       @ appendInt hour 2 @ '':'' @ appendInt minute 2 @ '':'' @ appendInt sec 2 @ ''Z'')
    = (if 1 \<le> month \<and> month \<le> 12 \<and> 1 \<le> day \<and> day \<le> daysIn month year
          \<and> hour < 24 \<and> minute < 60 \<and> sec < 60
       then Some \<lparr>unixSec =
                    (daysSinceYear1 year + daysBefore ! nat (month - 1)
                     + (if isLeap year \<and> 3 \<le> month then 1 else 0) + (day - 1)
                     - unixEpochDay) * 86400
                    + hour * 3600 + minute * 60 + sec,
                  nsec = 0, offset = 0\<rparr>
       else None)"
  unfolding appendInt_4 [OF assms(1,2)] appendInt_2 [OF assms(3,4)] appendInt_2 [OF assms(5,6)]
    appendInt_2 [OF assms(7,8)] appendInt_2 [OF assms(9,10)] appendInt_2 [OF assms(11,12)]
    Parse_RFC3339_def
  by (simp add: atoi_4 [OF assms(1,2)] atoi_2 [OF assms(3,4)] atoi_2 [OF assms(5,6)]
      atoi_2 [OF assms(7,8)] atoi_2 [OF assms(9,10)] atoi_2 [OF assms(11,12)])

lemma Format_RFC3339_UTC:
  "Format_RFC3339 (UTC t) =
    (let (year, yday) = absDate (unixSec t div 86400 + unixEpochDay);
         (month, day) = monthDay year yday;
         secs = unixSec t mod 86400
     in appendInt year 4 @ ''-'' @ appendInt month 2 @ ''-'' @ appendInt day 2 @ ''T''
        @ appendInt (secs div 3600) 2 @ '':'' @ appendInt (secs mod 3600 div 60) 2 @ '':''
        @ appendInt (secs mod 60) 2 @ ''Z'')"
  by (simp add: Format_RFC3339_def UTC_def Let_def split: prod.splits)

lemma Parse_Format_RFC3339:
  assumes "- 62167219200 \<le> unixSec t" "unixSec t < 253402300800"
  shows "Parse_RFC3339 (Format_RFC3339 (UTC t)) = Some \<lparr>unixSec = unixSec t, nsec = 0, offset = 0\<rparr>"
proof -
  define days where "days = unixSec t div 86400 + unixEpochDay"
  define secs where "secs = unixSec t mod 86400"
  obtain year yday where a: "absDate days = (year, yday)" by (cases "absDate days")
  obtain month day where m: "monthDay year yday = (month, day)" by (cases "monthDay year yday")
  have dr: "- 366 \<le> days" "days < 3652059"
    using assms unfolding days_def unixEpochDay_def by linarith+
  note yr = year_in_range [OF a dr]
  note ad = absDate_correct [OF a]
  note md = monthDay_correct [OF ad(2,3) m]
  have day: "day \<le> 31" using md daysIn_le [of month year] by linarith
  have s: "0 \<le> secs" "secs < 86400" by (simp_all add: secs_def)
  have h: "0 \<le> secs div 3600" "secs div 3600 < 24" using s by linarith+
  have mi: "0 \<le> secs mod 3600 div 60" "secs mod 3600 div 60 < 60" by linarith+
  have se: "0 \<le> secs mod 60" "secs mod 60 < 60" by simp_all
  have f: "Format_RFC3339 (UTC t) =
      appendInt year 4 @ ''-'' @ appendInt month 2 @ ''-'' @ appendInt day 2 @ ''T''
      @ appendInt (secs div 3600) 2 @ '':'' @ appendInt (secs mod 3600 div 60) 2 @ '':''
      @ appendInt (secs mod 60) 2 @ ''Z''"
    unfolding Format_RFC3339_UTC days_def [symmetric] secs_def [symmetric] a
    by (simp add: m)
  have p: "Parse_RFC3339 (Format_RFC3339 (UTC t)) =
      Some \<lparr>unixSec =
              (daysSinceYear1 year + daysBefore ! nat (month - 1)
               + (if isLeap year \<and> 3 \<le> month then 1 else 0) + (day - 1)
               - unixEpochDay) * 86400
              + secs div 3600 * 3600 + secs mod 3600 div 60 * 60 + secs mod 60,
            nsec = 0, offset = 0\<rparr>"
    unfolding f
    using md day h mi se yr
    by (subst parse_fixed_form) simp_all
  have "daysSinceYear1 year + daysBefore ! nat (month - 1)
        + (if isLeap year \<and> 3 \<le> month then 1 else 0) + (day - 1) = days"
    using md ad(1) by linarith
  moreover have "(days - unixEpochDay) * 86400 + secs = unixSec t"
    by (simp add: days_def secs_def)
  ultimately have "(daysSinceYear1 year + daysBefore ! nat (month - 1)
               + (if isLeap year \<and> 3 \<le> month then 1 else 0) + (day - 1)
               - unixEpochDay) * 86400
              + secs div 3600 * 3600 + secs mod 3600 div 60 * 60 + secs mod 60 = unixSec t"
    using clock_recompose [of secs] by (simp only:)
  then show ?thesis unfolding p by simp
qed

lemma Timestamp_NewDiscord:
  "Timestamp (hd (Embeds (NewDiscord P c result))) = Format_RFC3339 (UTC (StartTime result))"
  using Embeds_NewDiscord [of P c result] by auto

lemma Format_sample:
  "Format_RFC3339 (UTC \<lparr>unixSec = 1640995200, nsec = 500000000, offset = 3600\<rparr>)
     = ''2022-01-01T00:00:00Z''"
proof -
  have a: "absDate (18993 + unixEpochDay) = (2022, 0)"
    by (simp add: absDate_def Let_def unixEpochDay_def)
  have m: "monthDay 2022 0 = (1, 1)"
    by (simp add: monthDay_def Let_def isLeap_def daysBefore_nth)
  have d: "appendInt 2022 4 = ''2022''" "appendInt 1 2 = ''01''" "appendInt 0 2 = ''00''"
    by (simp_all add: appendInt_4 appendInt_2 digit_char_def)
  show ?thesis
    unfolding Format_RFC3339_UTC by (simp add: a m d)
qed

lemma Format_year_10000:
  "Format_RFC3339 (UTC \<lparr>unixSec = 253402300800, nsec = 0, offset = 0\<rparr>)
     = ''10000-01-01T00:00:00Z''"
proof -
  have a: "absDate (2932897 + unixEpochDay) = (10000, 0)"
    by (simp add: absDate_def Let_def unixEpochDay_def)
  have m: "monthDay 10000 0 = (1, 1)"
    by (simp add: monthDay_def Let_def isLeap_def daysBefore_nth)
  have "digits 10000 = ''10000''"
    by (simp add: digits_numeral digits_small digit_char_def)
  then have d: "appendInt 10000 4 = ''10000''"
    by (simp add: appendInt_def)
  have d': "appendInt 1 2 = ''01''" "appendInt 0 2 = ''00''"
    by (simp_all add: appendInt_2 digit_char_def)
  show ?thesis
    unfolding Format_RFC3339_UTC by (simp add: a m d d')
qed

lemma Parse_sample:
  "Parse_RFC3339 ''2022-01-01T00:00:00Z'' = Some \<lparr>unixSec = 1640995200, nsec = 0, offset = 0\<rparr>"
  using Parse_Format_RFC3339 [of "\<lparr>unixSec = 1640995200, nsec = 500000000, offset = 3600\<rparr>"]
  by (simp add: Format_sample)

lemma Parse_year_10000: "Parse_RFC3339 ''10000-01-01T00:00:00Z'' = None"
  by (simp add: Parse_RFC3339_def)

text \<open>
  C7, as the claim states it, fails: the layout RFC3339 has no fraction of a second,
  so a start time of 2022-01-01T00:00:00.5Z is written as \<open>2022-01-01T00:00:00Z\<close>, which
  parses to an instant half a second earlier; and the first instant of year 10000 is
  written with a year of five digits, which does not parse.
\<close>

theorem C7_counterexample:
  "Timestamp (hd (Embeds (NewDiscord sample_probe sample_config sample_result)))
     = ''2022-01-01T00:00:00Z''
   \<and> Parse_RFC3339 ''2022-01-01T00:00:00Z''
     = Some \<lparr>unixSec = 1640995200, nsec = 0, offset = 0\<rparr>
   \<and> \<not> sameInstant \<lparr>unixSec = 1640995200, nsec = 0, offset = 0\<rparr> (StartTime sample_result)
   \<and> Timestamp (hd (Embeds (NewDiscord sample_probe sample_config
         (sample_result\<lparr>StartTime := \<lparr>unixSec = 253402300800, nsec = 0, offset = 0\<rparr>\<rparr>))))
     = ''10000-01-01T00:00:00Z''
   \<and> Parse_RFC3339 ''10000-01-01T00:00:00Z'' = None"
  by (simp add: Timestamp_NewDiscord Format_sample Format_year_10000 Parse_sample
      Parse_year_10000 sameInstant_def sample_result_def)

text \<open>
  C7, amended: the timestamp of the one embed of \<open>NewDiscord\<close> is the start time of the
  result, converted to UTC and formatted with the layout RFC3339. When the year of the
  start time in UTC is from 0 to 9999, parsing the timestamp yields the start instant
  cut to the whole second: the same instant when the start time has no fraction of a
  second.
\<close>

theorem C7_timestamp:
  "\<exists>e. Embeds (NewDiscord P c result) = [e]
     \<and> Timestamp e = Format_RFC3339 (UTC (StartTime result))
     \<and> (- 62167219200 \<le> unixSec (StartTime result) \<and> unixSec (StartTime result) < 253402300800
          \<longrightarrow> Parse_RFC3339 (Timestamp e)
                = Some \<lparr>unixSec = unixSec (StartTime result), nsec = 0, offset = 0\<rparr>
              \<and> (nsec (StartTime result) = 0 \<longrightarrow>
                   sameInstant \<lparr>unixSec = unixSec (StartTime result), nsec = 0, offset = 0\<rparr>
                     (StartTime result)))"
proof -
  obtain e where e: "Embeds (NewDiscord P c result) = [e]"
    "Timestamp e = Format_RFC3339 (UTC (StartTime result))"
    using Embeds_NewDiscord [of P c result] by blast
  show ?thesis
    using e Parse_Format_RFC3339 [of "StartTime result"] by (auto simp: sameInstant_def)
qed

theorem C7_witness:
  "- 62167219200 \<le> unixSec (StartTime sample_result)
   \<and> unixSec (StartTime sample_result) < 253402300800
   \<and> Parse_RFC3339 (Timestamp (hd (Embeds (NewDiscord sample_probe sample_config sample_result))))
       = Some \<lparr>unixSec = 1640995200, nsec = 0, offset = 0\<rparr>"
proof -
  have r: "- 62167219200 \<le> unixSec (StartTime sample_result)"
    "unixSec (StartTime sample_result) < 253402300800"
    "unixSec (StartTime sample_result) = 1640995200"
    by (simp_all add: sample_result_def)
  from C7_timestamp [of sample_probe sample_config sample_result]
  obtain e where "Embeds (NewDiscord sample_probe sample_config sample_result) = [e]"
    and "Parse_RFC3339 (Timestamp e)
           = Some \<lparr>unixSec = unixSec (StartTime sample_result), nsec = 0, offset = 0\<rparr>"
    using r(1,2) by blast
  then show ?thesis using r by simp
qed

subsection \<open>Failure of the delivery\<close>

lemma SendDiscordNotification_with_marshal_error:
  "marshal discord = Inl e \<Longrightarrow> SendDiscordNotification_with marshal W c discord = ([], Some e)"
  by (simp add: SendDiscordNotification_with_def)

lemma Round_sample: "Round 1234567 Millisecond = 1000000"
proof -
  have "Round 1234567 Millisecond = nearest_multiple 1234567 Millisecond"
    by (rule Round_Millisecond) simp
  then show ?thesis
    by (simp add: nearest_multiple_def Millisecond_eq)
qed

lemma Itoa_red: "Itoa 10945283 = ''10945283''"
  by (simp add: Itoa_def digits.simps digit_char_def)

lemma fmt_v_Discord_sample:
  "fmt_v_Discord (NewDiscord sample_probe sample_config sample_result) =
     ''{Easeprobe https://megaease.cn/favicon.png  [{{  } web Failure  10945283 ! http://x - ''
     @ stopwatch @ '' 1ms'' @ LF @ [CHR 0x60, CHR 0x60, CHR 0x60] @ ''boom''
     @ [CHR 0x60, CHR 0x60, CHR 0x60]
     @ '' 2022-01-01T00:00:00Z {https://megaease.cn/favicon.png} [] {Probed at https://megaease.cn/favicon.png}}]}''"
  by (simp add: NewDiscord_def Let_def fmt_v_Discord_def fmt_v_Embed_def fmt_v_Author_def
      fmt_v_Thumbnail_def fmt_v_Footer_def sample_result_def sample_probe_def Round_sample
      Duration_String_1ms Format_sample Itoa_red)

lemma fmt_v_Discord_empty_report:
  "fmt_v_Discord (NewEmbeds P W c []) =
     ''{Easeprobe https://megaease.cn/favicon.png **Overall SLA Report** []}''"
  by (simp add: NewEmbeds_def fmt_v_Discord_def)

text \<open>
  C6: outside dry-run mode, when \<open>SendDiscordNotification\<close> returns an error, \<open>Notify\<close>
  and \<open>NotifyStat\<close> log that error and then one more line at error level: the JSON
  text of the payload when \<open>json.Marshal\<close> returns it, what \<open>%v\<close> prints for the payload
  when \<open>json.Marshal\<close> fails. (In \<open>NotifyStat\<close> the JSON text stands in the line as an
  extra operand of the format.) Nothing follows these lines: both functions return to
  their caller, and neither has a result that could carry the error. This holds of
  the bodies of the two functions for every marshaller, one that fails included: then
  no request is made, and the two lines are the error of the marshaller and the
  payload as \<open>%v\<close> prints it. For the functions themselves, whose marshaller returns
  the JSON text of every payload, the second line holds that text.
\<close>

theorem C6_delivery_failure_logged:
  assumes "\<not> Dry c"
  shows "(\<forall>sent err. SendDiscordNotification_with marshal W c (NewDiscord P c result) = (sent, Some err) \<longrightarrow>
            Notify_with marshal P W c result =
              sent @ [Log ErrorLevel (Error err),
                      Log ErrorLevel
                        (case marshal (NewDiscord P c result) of
                           Inr json \<Rightarrow> ''Notify[discord] - '' @ json
                         | Inl e \<Rightarrow> ''Notify[discord] - '' @ fmt_v_Discord (NewDiscord P c result))])
    \<and> (\<forall>sent err. SendDiscordNotification_with marshal W c (NewEmbeds P W c probers) = (sent, Some err) \<longrightarrow>
            NotifyStat_with marshal P W c probers =
              sent @ [Log ErrorLevel (Error err),
                      Log ErrorLevel
                        (case marshal (NewEmbeds P W c probers) of
                           Inr json \<Rightarrow> ''Notify['' @ fmt_s_NotifyConfig c
                                        @ ''] - discord%!(EXTRA string='' @ json @ '')''
                         | Inl e \<Rightarrow> ''Notify[discord] - '' @ fmt_v_Discord (NewEmbeds P W c probers))])
    \<and> (\<forall>e. marshal (NewDiscord P c result) = Inl e \<longrightarrow>
            Notify_with marshal P W c result =
              [Log ErrorLevel (Error e),
               Log ErrorLevel (''Notify[discord] - '' @ fmt_v_Discord (NewDiscord P c result))])
    \<and> (\<forall>e. marshal (NewEmbeds P W c probers) = Inl e \<longrightarrow>
            NotifyStat_with marshal P W c probers =
              [Log ErrorLevel (Error e),
               Log ErrorLevel (''Notify[discord] - '' @ fmt_v_Discord (NewEmbeds P W c probers))])
    \<and> (\<forall>sent err. SendDiscordNotification W c (NewDiscord P c result) = (sent, Some err) \<longrightarrow>
            Notify P W c result =
              sent @ [Log ErrorLevel (Error err),
                      Log ErrorLevel (''Notify[discord] - ''
                                      @ json_encode W (Discord_json (NewDiscord P c result)))])
    \<and> (\<forall>sent err. SendDiscordNotification W c (NewEmbeds P W c probers) = (sent, Some err) \<longrightarrow>
            NotifyStat P W c probers =
              sent @ [Log ErrorLevel (Error err),
                      Log ErrorLevel (''Notify['' @ fmt_s_NotifyConfig c
                                      @ ''] - discord%!(EXTRA string=''
                                      @ json_encode W (Discord_json (NewEmbeds P W c probers))
                                      @ '')'')])"
proof (intro conjI allI impI)
  fix sent err
  assume "SendDiscordNotification_with marshal W c (NewDiscord P c result) = (sent, Some err)"
  with assms show "Notify_with marshal P W c result =
      sent @ [Log ErrorLevel (Error err),
              Log ErrorLevel
                (case marshal (NewDiscord P c result) of
                   Inr json \<Rightarrow> ''Notify[discord] - '' @ json
                 | Inl e \<Rightarrow> ''Notify[discord] - '' @ fmt_v_Discord (NewDiscord P c result))]"
    by (simp add: Notify_with_def Kind_def Let_def split: sum.splits)
next
  fix sent err
  assume "SendDiscordNotification_with marshal W c (NewEmbeds P W c probers) = (sent, Some err)"
  with assms show "NotifyStat_with marshal P W c probers =
      sent @ [Log ErrorLevel (Error err),
              Log ErrorLevel
                (case marshal (NewEmbeds P W c probers) of
                   Inr json \<Rightarrow> ''Notify['' @ fmt_s_NotifyConfig c
                                @ ''] - discord%!(EXTRA string='' @ json @ '')''
                 | Inl e \<Rightarrow> ''Notify[discord] - '' @ fmt_v_Discord (NewEmbeds P W c probers))]"
    by (simp add: NotifyStat_with_def Kind_def Let_def split: sum.splits)
next
  fix e
  assume "marshal (NewDiscord P c result) = Inl e"
  with assms show "Notify_with marshal P W c result =
      [Log ErrorLevel (Error e),
       Log ErrorLevel (''Notify[discord] - '' @ fmt_v_Discord (NewDiscord P c result))]"
    by (simp add: Notify_with_def Kind_def Let_def SendDiscordNotification_with_marshal_error)
next
  fix e
  assume "marshal (NewEmbeds P W c probers) = Inl e"
  with assms show "NotifyStat_with marshal P W c probers =
      [Log ErrorLevel (Error e),
       Log ErrorLevel (''Notify[discord] - '' @ fmt_v_Discord (NewEmbeds P W c probers))]"
    by (simp add: NotifyStat_with_def Kind_def Let_def SendDiscordNotification_with_marshal_error)
next
  fix sent err
  assume "SendDiscordNotification W c (NewDiscord P c result) = (sent, Some err)"
  with assms show "Notify P W c result =
      sent @ [Log ErrorLevel (Error err),
              Log ErrorLevel (''Notify[discord] - ''
                              @ json_encode W (Discord_json (NewDiscord P c result)))]"
    by (simp add: Notify_def Notify_with_def SendDiscordNotification_def Kind_def Let_def
        json_Marshal_def)
next
  fix sent err
  assume "SendDiscordNotification W c (NewEmbeds P W c probers) = (sent, Some err)"
  with assms show "NotifyStat P W c probers =
      sent @ [Log ErrorLevel (Error err),
              Log ErrorLevel (''Notify['' @ fmt_s_NotifyConfig c
                              @ ''] - discord%!(EXTRA string=''
                              @ json_encode W (Discord_json (NewEmbeds P W c probers))
                              @ '')'')]"
    by (simp add: NotifyStat_def NotifyStat_with_def SendDiscordNotification_def Kind_def
        Let_def json_Marshal_def)
qed

theorem C6_witness:
  "\<not> Dry sample_config
   \<and> Notify sample_probe (sample_world 400) sample_config sample_result
      = [HTTPDo \<lparr>Timeout = 10000000000\<rparr>
           \<lparr>Method = ''POST'', ReqURL = ''https://discord.example/hook'',
            Header = [(''Content-Type'', ''application/json'')], Body = ''{}'', Close = True\<rparr>,
         Log ErrorLevel ''Error response from Discord [400] - [bad request]'',
         Log ErrorLevel ''Notify[discord] - {}'']
   \<and> NotifyStat sample_probe sample_world_offline sample_config [sample_prober]
      = [HTTPDo \<lparr>Timeout = 10000000000\<rparr>
           \<lparr>Method = ''POST'', ReqURL = ''https://discord.example/hook'',
            Header = [(''Content-Type'', ''application/json'')], Body = ''{}'', Close = True\<rparr>,
         Log ErrorLevel ''dial tcp: timeout'',
         Log ErrorLevel ''Notify[{https://discord.example/hook %!s(bool=false)}] - discord%!(EXTRA string={})'']
   \<and> Notify_with sample_marshal_failing sample_probe (sample_world 204) sample_config sample_result
      = [Log ErrorLevel ''json: unsupported value'',
         Log ErrorLevel
           (''Notify[discord] - {Easeprobe https://megaease.cn/favicon.png  [{{  } web Failure  10945283 ! http://x - ''
            @ stopwatch @ '' 1ms'' @ LF @ [CHR 0x60, CHR 0x60, CHR 0x60] @ ''boom''
            @ [CHR 0x60, CHR 0x60, CHR 0x60]
            @ '' 2022-01-01T00:00:00Z {https://megaease.cn/favicon.png} [] {Probed at https://megaease.cn/favicon.png}}]}'')]
   \<and> NotifyStat_with sample_marshal_failing sample_probe (sample_world 204) sample_config []
      = [Log ErrorLevel ''json: unsupported value'',
         Log ErrorLevel ''Notify[discord] - {Easeprobe https://megaease.cn/favicon.png **Overall SLA Report** []}'']"
proof -
  have d: "\<not> Dry sample_config" by (simp add: sample_config_def)
  have s1: "SendDiscordNotification (sample_world 400) sample_config
              (NewDiscord sample_probe sample_config sample_result)
      = ([HTTPDo \<lparr>Timeout = 10000000000\<rparr>
           \<lparr>Method = ''POST'', ReqURL = ''https://discord.example/hook'',
            Header = [(''Content-Type'', ''application/json'')], Body = ''{}'', Close = True\<rparr>],
         Some (GoError ''Error response from Discord [400] - [bad request]''))"
    unfolding SendDiscordNotification_request [OF url_Parse_sample_world(1)]
    by (simp add: sample_world_def sample_config_def Itoa_def digits_400 Second_def
        Millisecond_def Microsecond_def Nanosecond_def)
  have s2: "SendDiscordNotification sample_world_offline sample_config
              (NewEmbeds sample_probe sample_world_offline sample_config [sample_prober])
      = ([HTTPDo \<lparr>Timeout = 10000000000\<rparr>
           \<lparr>Method = ''POST'', ReqURL = ''https://discord.example/hook'',
            Header = [(''Content-Type'', ''application/json'')], Body = ''{}'', Close = True\<rparr>],
         Some (GoError ''dial tcp: timeout''))"
    unfolding SendDiscordNotification_request [OF url_Parse_sample_world(2)]
    by (simp add: sample_world_def sample_world_offline_def sample_config_def Second_def
        Millisecond_def Microsecond_def Nanosecond_def)
  have m: "json_encode (sample_world 400) x = ''{}''"
    "json_encode sample_world_offline x = ''{}''" for x
    by (simp_all add: sample_world_def sample_world_offline_def)
  have f: "fmt_s_NotifyConfig sample_config = ''{https://discord.example/hook %!s(bool=false)}''"
    by (simp add: fmt_s_NotifyConfig_def fmt_bool_def sample_config_def)
  have g: "sample_marshal_failing x = Inl (GoError ''json: unsupported value'')" for x
    by (simp add: sample_marshal_failing_def)
  from C6_delivery_failure_logged [OF d, of "json_Marshal (sample_world 400)" "sample_world 400"
      sample_probe sample_result "[sample_prober]"]
  have n1: "Notify sample_probe (sample_world 400) sample_config sample_result
      = [HTTPDo \<lparr>Timeout = 10000000000\<rparr>
           \<lparr>Method = ''POST'', ReqURL = ''https://discord.example/hook'',
            Header = [(''Content-Type'', ''application/json'')], Body = ''{}'', Close = True\<rparr>,
         Log ErrorLevel ''Error response from Discord [400] - [bad request]'',
         Log ErrorLevel ''Notify[discord] - {}'']"
    by (simp add: s1 m)
  from C6_delivery_failure_logged [OF d, of "json_Marshal sample_world_offline" sample_world_offline
      sample_probe sample_result "[sample_prober]"]
  have n2: "NotifyStat sample_probe sample_world_offline sample_config [sample_prober]
      = [HTTPDo \<lparr>Timeout = 10000000000\<rparr>
           \<lparr>Method = ''POST'', ReqURL = ''https://discord.example/hook'',
            Header = [(''Content-Type'', ''application/json'')], Body = ''{}'', Close = True\<rparr>,
         Log ErrorLevel ''dial tcp: timeout'',
         Log ErrorLevel ''Notify[{https://discord.example/hook %!s(bool=false)}] - discord%!(EXTRA string={})'']"
    by (simp add: s2 m f)
  from C6_delivery_failure_logged [OF d, of sample_marshal_failing "sample_world 204"
      sample_probe sample_result "[]"]
  have n3: "Notify_with sample_marshal_failing sample_probe (sample_world 204) sample_config sample_result
      = [Log ErrorLevel ''json: unsupported value'',
         Log ErrorLevel
           (''Notify[discord] - {Easeprobe https://megaease.cn/favicon.png  [{{  } web Failure  10945283 ! http://x - ''
            @ stopwatch @ '' 1ms'' @ LF @ [CHR 0x60, CHR 0x60, CHR 0x60] @ ''boom''
            @ [CHR 0x60, CHR 0x60, CHR 0x60]
            @ '' 2022-01-01T00:00:00Z {https://megaease.cn/favicon.png} [] {Probed at https://megaease.cn/favicon.png}}]}'')]"
    and n4: "NotifyStat_with sample_marshal_failing sample_probe (sample_world 204) sample_config []
      = [Log ErrorLevel ''json: unsupported value'',
         Log ErrorLevel ''Notify[discord] - {Easeprobe https://megaease.cn/favicon.png **Overall SLA Report** []}'']"
    by (simp_all add: g fmt_v_Discord_sample fmt_v_Discord_empty_report)
  from d n1 n2 n3 n4 show ?thesis by blast
qed

end
